theory Spec2Isabelle
  imports Complex_Main
begin

section \<open>Conventions of the embedding\<close>

text \<open>
  The development embeds the risk-aggregation engine of the repository: the orchestrator
  of \<^verbatim>\<open>agents/financial_bodyguard.py\<close>, the five specialist agents of
  \<^verbatim>\<open>agents/specialists/__init__.py\<close>, the UPI detector of \<^verbatim>\<open>agents/tools.py\<close> and
  the execution wrapper of \<^verbatim>\<open>core/adk_core.py\<close>.

  \<^item> A Python \<^verbatim>\<open>str\<close> is a \<^typ>\<open>string\<close>, read as the UTF-8 bytes of the text. The
    substring test \<^verbatim>\<open>kw in s\<close> on code points and on UTF-8 bytes agree. \<^verbatim>\<open>str.lower\<close>
    is modelled on the ASCII letters, and the classes \<^verbatim>\<open>\d\<close> and \<^verbatim>\<open>\s\<close> of the regular
    expressions on the ASCII digits and spaces; text with cased letters, digits or spaces
    outside ASCII is outside the model.
  \<^item> A Python \<^verbatim>\<open>float\<close> is a \<^typ>\<open>real\<close>: scores are exact, rounding is not modelled.
  \<^item> A result dictionary is a record; a key that \<^verbatim>\<open>dict.get\<close> may find missing is an
    optional field.
  \<^item> Localised (Hindi) texts, free-text explanations, evidence lists and the two summaries
    of the orchestrator do not enter any score or tier; they are left out of the records.
\<close>

subsection \<open>Strings\<close>

fun lower_char :: "char \<Rightarrow> char" where
  "lower_char c =
     (if c = CHR ''A'' then CHR ''a'' else if c = CHR ''B'' then CHR ''b''
      else if c = CHR ''C'' then CHR ''c'' else if c = CHR ''D'' then CHR ''d''
      else if c = CHR ''E'' then CHR ''e'' else if c = CHR ''F'' then CHR ''f''
      else if c = CHR ''G'' then CHR ''g'' else if c = CHR ''H'' then CHR ''h''
      else if c = CHR ''I'' then CHR ''i'' else if c = CHR ''J'' then CHR ''j''
      else if c = CHR ''K'' then CHR ''k'' else if c = CHR ''L'' then CHR ''l''
      else if c = CHR ''M'' then CHR ''m'' else if c = CHR ''N'' then CHR ''n''
      else if c = CHR ''O'' then CHR ''o'' else if c = CHR ''P'' then CHR ''p''
      else if c = CHR ''Q'' then CHR ''q'' else if c = CHR ''R'' then CHR ''r''
      else if c = CHR ''S'' then CHR ''s'' else if c = CHR ''T'' then CHR ''t''
      else if c = CHR ''U'' then CHR ''u'' else if c = CHR ''V'' then CHR ''v''
      else if c = CHR ''W'' then CHR ''w'' else if c = CHR ''X'' then CHR ''x''
      else if c = CHR ''Y'' then CHR ''y'' else if c = CHR ''Z'' then CHR ''z''
      else c)"

definition lower :: "string \<Rightarrow> string" where
  "lower s = map lower_char s"

text \<open>\<^verbatim>\<open>s.startswith(p)\<close> and the substring test \<^verbatim>\<open>kw in s\<close>.\<close>

fun startswith :: "string \<Rightarrow> string \<Rightarrow> bool" where
  "startswith s [] = True"
| "startswith [] (p # ps) = False"
| "startswith (c # cs) (p # ps) = (c = p \<and> startswith cs ps)"

fun str_in :: "string \<Rightarrow> string \<Rightarrow> bool" where
  "str_in kw [] = (kw = [])"
| "str_in kw (c # cs) = (startswith (c # cs) kw \<or> str_in kw cs)"

text \<open>\<^verbatim>\<open>sum(1 for kw in kws if kw in s)\<close> and \<^verbatim>\<open>[kw for kw in kws if kw in s]\<close>.\<close>

definition hits :: "string list \<Rightarrow> string \<Rightarrow> string list" where
  "hits kws s = filter (\<lambda>kw. str_in kw s) kws"

definition count_hits :: "string list \<Rightarrow> string \<Rightarrow> nat" where
  "count_hits kws s = length (hits kws s)"

text \<open>\<^verbatim>\<open>any(kw in s for kw in kws)\<close>.\<close>

definition any_in :: "string list \<Rightarrow> string \<Rightarrow> bool" where
  "any_in kws s = list_ex (\<lambda>kw. str_in kw s) kws"

section \<open>Orchestrator: aggregation\<close>

text \<open>
  A specialist's result dictionary. \<^verbatim>\<open>_aggregate_results\<close> reads \<^verbatim>\<open>risk_score\<close> and
  \<^verbatim>\<open>agent\<close> with \<^verbatim>\<open>dict.get\<close> and a default, so both are optional; the document
  agent's dictionary has no \<^verbatim>\<open>threat_level\<close>.
\<close>

record finding =
  agent :: "string option"
  risk_score :: "real option"
  threat_level :: "string option"

text \<open>\<^verbatim>\<open>r.get('risk_score', 0)\<close> and \<^verbatim>\<open>r.get('agent', 'unknown')\<close>.\<close>

definition get_risk_score :: "finding \<Rightarrow> real" where
  "get_risk_score r = (case risk_score r of None \<Rightarrow> 0 | Some x \<Rightarrow> x)"

definition get_agent :: "finding \<Rightarrow> string" where
  "get_agent r = (case agent r of None \<Rightarrow> ''unknown'' | Some a \<Rightarrow> a)"

record aggregated =
  agg_threat_level :: string
  agg_risk_score :: real
  primary_threat :: "string option"
  agent_count :: nat
  all_risks :: "real list"

text \<open>
  The loop \<^verbatim>\<open>for r in results: if r.get('risk_score', 0) == max_risk: ...; break\<close>:
  the first finding whose score is the maximum names the primary threat.
\<close>

fun first_with_risk :: "real \<Rightarrow> finding list \<Rightarrow> string option" where
  "first_with_risk m [] = None"
| "first_with_risk m (r # rs) =
     (if get_risk_score r = m then Some (get_agent r) else first_with_risk m rs)"

text \<open>
  \<^verbatim>\<open>_aggregate_results\<close>. The empty list returns the three-key dictionary
  (\<^verbatim>\<open>agent_count\<close> and \<^verbatim>\<open>all_risks\<close> are absent there and read as 0 and []).
  Python's \<^verbatim>\<open>max\<close> over a non-empty sequence keeps a running maximum.
\<close>

fun aggregate_results :: "finding list \<Rightarrow> aggregated" where
  "aggregate_results [] =
     \<lparr>agg_threat_level = ''SAFE'', agg_risk_score = 0, primary_threat = None,
      agent_count = 0, all_risks = []\<rparr>"
| "aggregate_results (r # rs) =
     (let results = r # rs;
          max_risk = fold max (map get_risk_score rs) (get_risk_score r);
          primary = first_with_risk max_risk results;
          level = (if max_risk \<ge> 0.9 then ''CRITICAL''
                   else if max_risk \<ge> 0.7 then ''HIGH''
                   else if max_risk \<ge> 0.4 then ''MEDIUM''
                   else if max_risk > 0.1 then ''LOW''
                   else ''SAFE'')
      in \<lparr>agg_threat_level = level, agg_risk_score = max_risk, primary_threat = primary,
          agent_count = length results, all_risks = map get_risk_score results\<rparr>)"

text \<open>The orchestrator's band table as the specification words it.\<close>

definition orchestrator_band :: "real \<Rightarrow> string" where
  "orchestrator_band score =
     (if score \<ge> 0.9 then ''CRITICAL''
      else if score \<ge> 0.7 then ''HIGH''
      else if score \<ge> 0.4 then ''MEDIUM''
      else if score > 0.1 then ''LOW''
      else ''SAFE'')"

section \<open>Orchestrator: trajectory matching\<close>

text \<open>
  An entry of the trajectory library (\<^verbatim>\<open>data/fraud_trajectories.json\<close>, loaded once; the
  orchestrator holds the list in \<^verbatim>\<open>self.trajectories\<close>). \<^verbatim>\<open>red_flags\<close> is read with
  \<^verbatim>\<open>trajectory.get('red_flags', [])\<close>: a missing key is the empty list.
\<close>

record trajectory =
  traj_id :: string
  traj_name :: string
  red_flags :: "string list"
  detection_agent :: string

text \<open>\<^verbatim>\<open>sum(1 for rf in red_flags if rf.lower() in content_lower)\<close>.\<close>

definition flag_matches :: "string \<Rightarrow> trajectory \<Rightarrow> nat" where
  "flag_matches content_lower t =
     length (filter (\<lambda>rf. str_in (lower rf) content_lower) (red_flags t))"

text \<open>
  The loop of \<^verbatim>\<open>_match_trajectory\<close> over the library, carrying
  \<^verbatim>\<open>(best_match, best_score)\<close>: a trajectory replaces the best one only when its
  count is strictly greater.
\<close>

fun match_loop ::
  "string \<Rightarrow> trajectory list \<Rightarrow> trajectory option \<times> nat \<Rightarrow> trajectory option \<times> nat" where
  "match_loop content_lower [] (best_match, best_score) = (best_match, best_score)"
| "match_loop content_lower (t # ts) (best_match, best_score) =
     (let matches = flag_matches content_lower t
      in if matches > best_score then match_loop content_lower ts (Some t, matches)
         else match_loop content_lower ts (best_match, best_score))"

text \<open>\<^verbatim>\<open>_match_trajectory\<close>; the argument \<^verbatim>\<open>aggregated\<close> is not read by the source.\<close>

definition match_trajectory ::
  "trajectory list \<Rightarrow> string \<Rightarrow> aggregated \<Rightarrow> trajectory option" where
  "match_trajectory trajectories content agg =
     (let content_lower = lower content;
          (best_match, best_score) = match_loop content_lower trajectories (None, 0)
      in if best_score \<ge> 2 then best_match else None)"

section \<open>Orchestrator: recommendations\<close>

text \<open>
  The literal that \<^verbatim>\<open>_generate_recommendations\<close> inserts at position 0 for a subject of
  60 years or more (the leading bytes are the emoji of the source).
\<close>

definition elder_instruction :: string where
  "elder_instruction =
     [CHR 0xF0, CHR 0x9F, CHR 0x91, CHR 0xB4] @ '' Please show this to a younger family member''"

text \<open>\<^verbatim>\<open>_generate_recommendations\<close>; \<^verbatim>\<open>recs.insert(0, x)\<close> is \<open>x # recs\<close>.\<close>

definition generate_recommendations :: "string \<Rightarrow> real \<Rightarrow> int \<Rightarrow> string list" where
  "generate_recommendations level score user_age =
     (let is_elderly = (user_age \<ge> 60) in
      if level = ''CRITICAL'' then
        (let recs =
           [[CHR 0xF0, CHR 0x9F, CHR 0x9A, CHR 0xA8] @ '' STOP! Do NOT proceed with this transaction!'',
            [CHR 0xF0, CHR 0x9F, CHR 0x9A, CHR 0xAB] @ '' Do NOT share any OTP, PIN, or password'',
            [CHR 0xF0, CHR 0x9F, CHR 0x93, CHR 0x9E] @ '' Call Cyber Crime Helpline: 1930'',
            [CHR 0xF0, CHR 0x9F, CHR 0x91, CHR 0xA8, CHR 0xE2, CHR 0x80, CHR 0x8D,
             CHR 0xF0, CHR 0x9F, CHR 0x91, CHR 0xA9, CHR 0xE2, CHR 0x80, CHR 0x8D,
             CHR 0xF0, CHR 0x9F, CHR 0x91, CHR 0xA7]
              @ '' Inform a trusted family member immediately'',
            [CHR 0xF0, CHR 0x9F, CHR 0x8F, CHR 0xA6] @ '' If you'' @ [CHR 0x27]
              @ ''ve shared any details, call your bank NOW'']
         in if is_elderly then elder_instruction # recs else recs)
      else if level = ''HIGH'' then
        [[CHR 0xE2, CHR 0x9A, CHR 0xA0, CHR 0xEF, CHR 0xB8, CHR 0x8F]
           @ '' This appears to be a scam - do not proceed'',
         [CHR 0xF0, CHR 0x9F, CHR 0x94, CHR 0x92] @ '' Do not click any links in this message'',
         [CHR 0xF0, CHR 0x9F, CHR 0x93, CHR 0xB1] @ '' Verify sender through official channels only'',
         [CHR 0xE2, CHR 0x8F, CHR 0xB0] @ '' Take time to verify - genuine matters can wait'']
      else if level = ''MEDIUM'' then
        [[CHR 0xE2, CHR 0x9A, CHR 0xA1] @ '' Exercise caution before proceeding'',
         [CHR 0xF0, CHR 0x9F, CHR 0x94, CHR 0x8D] @ '' Verify the sender'' @ [CHR 0x27]
           @ ''s identity'',
         [CHR 0xF0, CHR 0x9F, CHR 0x93, CHR 0x9E] @ '' Contact official helpline to confirm'']
      else
        [[CHR 0xE2, CHR 0x9C, CHR 0x85] @ '' No immediate threat detected'',
         [CHR 0xF0, CHR 0x9F, CHR 0x94, CHR 0x92] @ '' Always protect your OTP and PIN'',
         [CHR 0xF0, CHR 0x9F, CHR 0x91, CHR 0x80] @ '' Stay alert for future suspicious messages''])"

section \<open>Specialist agents\<close>

subsection \<open>Two-tier patterns\<close>

text \<open>
  An entry of a pattern table: \<^verbatim>\<open>self.patterns\<close> of \<^verbatim>\<open>UPIFraudAgent\<close> and
  \<^verbatim>\<open>SCAM_PATTERNS\<close> of \<^verbatim>\<open>UPIScamDetector\<close>. Python dictionaries keep insertion order,
  so a table is the list of its entries.
\<close>

record pattern =
  pat_name :: string
  pat_keywords :: "string list"
  pat_indicators :: "string list"
  pat_risk :: real

text \<open>An entry of \<^verbatim>\<open>detected_patterns\<close>: the pattern's name and its score.\<close>

record detected_pattern =
  dp_name :: string
  dp_risk :: real

text \<open>
  The state of the pattern loop: \<^verbatim>\<open>detected_patterns\<close>, the running maximum
  (\<^verbatim>\<open>max_risk\<close>, \<^verbatim>\<open>total_risk\<close>) and the evidence list.
\<close>

type_synonym scan_state = "detected_pattern list \<times> real \<times> string list"

subsection \<open>UPIFraudAgent\<close>

definition UPIFraudAgent_patterns :: "pattern list" where
  "UPIFraudAgent_patterns =
     [\<lparr>pat_name = ''collect_scam'',
        pat_keywords = [''collect'', ''request'', ''claim'', ''receive'', ''accepting''],
        pat_indicators = [''won'', ''lottery'', ''prize'', ''cashback'', ''reward'', ''refund''],
        pat_risk = 0.95\<rparr>,
      \<lparr>pat_name = ''qr_fraud'',
        pat_keywords = [''scan'', ''qr'', ''code''],
        pat_indicators = [''receive'', ''payment'', ''money'', ''credit''],
        pat_risk = 0.92\<rparr>,
      \<lparr>pat_name = ''fake_refund'',
        pat_keywords = [''refund'', ''reversal'', ''pending'', ''failed''],
        pat_indicators = [''upi pin'', ''enter'', ''verify'', ''confirm''],
        pat_risk = 0.90\<rparr>,
      \<lparr>pat_name = ''marketplace'',
        pat_keywords = [''army'', ''crpf'', ''posting'', ''buyer'', ''seller''],
        pat_indicators = [''qr'', ''link'', ''pay'', ''receive''],
        pat_risk = 0.88\<rparr>]"

text \<open>One iteration of the loop over \<^verbatim>\<open>self.patterns.items()\<close>.\<close>

definition UPIFraudAgent_step :: "string \<Rightarrow> pattern \<Rightarrow> scan_state \<Rightarrow> scan_state" where
  "UPIFraudAgent_step content_lower p st =
     (case st of (detected_patterns, max_risk, flags) \<Rightarrow>
       (let keyword_hits = count_hits (pat_keywords p) content_lower;
            indicator_hits = count_hits (pat_indicators p) content_lower
        in if keyword_hits > 0 \<and> indicator_hits > 0 then
             (let r = min (pat_risk p * (0.7 + 0.15 * real keyword_hits + 0.15 * real indicator_hits)) 1.0
              in (detected_patterns @ [\<lparr>dp_name = pat_name p, dp_risk = r\<rparr>],
                  max max_risk r,
                  flags @ hits (pat_keywords p) content_lower @ hits (pat_indicators p) content_lower))
           else st))"

definition UPIFraudAgent_scan :: "string \<Rightarrow> scan_state" where
  "UPIFraudAgent_scan content_lower =
     fold (UPIFraudAgent_step content_lower) UPIFraudAgent_patterns ([], 0.0, [])"

definition UPIFraudAgent_urgency_words :: "string list" where
  "UPIFraudAgent_urgency_words =
     [''urgent'', ''immediately'', ''now'', ''hurry'', ''fast'', ''limited'', ''expire'', ''last chance'']"

text \<open>
  \<^verbatim>\<open>UPIFraudAgent.analyze\<close>: the pattern loop, the urgency amplifier, the band table.
  The last branch of the table is \<^verbatim>\<open>else: 'LOW'\<close>.
\<close>

definition UPIFraudAgent_analyze :: "string \<Rightarrow> finding" where
  "UPIFraudAgent_analyze content =
     (let content_lower = lower content;
          (detected_patterns, max_risk0, flags) = UPIFraudAgent_scan content_lower;
          urgency_hits = count_hits UPIFraudAgent_urgency_words content_lower;
          max_risk = (if urgency_hits > 0 then min (max_risk0 + 0.05 * real urgency_hits) 1.0
                      else max_risk0);
          level = (if max_risk \<ge> 0.9 then ''CRITICAL''
                   else if max_risk \<ge> 0.7 then ''HIGH''
                   else if max_risk \<ge> 0.4 then ''MEDIUM''
                   else ''LOW'')
      in \<lparr>agent = Some ''upi_fraud_agent'', risk_score = Some max_risk,
          threat_level = Some level\<rparr>)"

subsection \<open>UPIScamDetector\<close>

datatype RiskLevel = SAFE | LOW | MEDIUM | HIGH | CRITICAL

definition SCAM_PATTERNS :: "pattern list" where
  "SCAM_PATTERNS =
     [\<lparr>pat_name = ''collect_request_scam'',
        pat_keywords = [''collect'', ''request'', ''pay'', ''receive'', ''claim''],
        pat_indicators = [''won'', ''lottery'', ''prize'', ''cashback'', ''refund'', ''reward''],
        pat_risk = 0.9\<rparr>,
      \<lparr>pat_name = ''fake_cashback'',
        pat_keywords = [''cashback'', ''bonus'', ''reward'', ''credit''],
        pat_indicators = [''click'', ''link'', ''verify'', ''otp''],
        pat_risk = 0.85\<rparr>,
      \<lparr>pat_name = ''refund_scam'',
        pat_keywords = [''refund'', ''reversal'', ''failed'', ''pending''],
        pat_indicators = [''upi pin'', ''enter'', ''confirm'', ''process''],
        pat_risk = 0.88\<rparr>,
      \<lparr>pat_name = ''qr_code_scam'',
        pat_keywords = [''scan'', ''qr'', ''code'', ''payment''],
        pat_indicators = [''receive'', ''get'', ''credit'', ''money''],
        pat_risk = 0.92\<rparr>]"

definition ODD_AMOUNTS :: "real list" where
  "ODD_AMOUNTS = [1, 10, 49999, 50000, 99999, 100000]"

text \<open>One iteration of the loop over \<^verbatim>\<open>SCAM_PATTERNS.items()\<close>.\<close>

definition UPIScamDetector_step :: "string \<Rightarrow> pattern \<Rightarrow> scan_state \<Rightarrow> scan_state" where
  "UPIScamDetector_step message_lower p st =
     (case st of (detected_patterns, total_risk, evidence) \<Rightarrow>
       (let keyword_matches = count_hits (pat_keywords p) message_lower;
            indicator_matches = count_hits (pat_indicators p) message_lower
        in if keyword_matches > 0 \<and> indicator_matches > 0 then
             (let pattern_risk =
                    min (pat_risk p * (0.5 + 0.25 * real keyword_matches + 0.25 * real indicator_matches)) 1.0
              in (detected_patterns @ [\<lparr>dp_name = pat_name p, dp_risk = pattern_risk\<rparr>],
                  max total_risk pattern_risk,
                  evidence @ [''Matched pattern: '' @ pat_name p]))
           else st))"

definition UPIScamDetector_scan :: "string \<Rightarrow> scan_state" where
  "UPIScamDetector_scan message_lower =
     fold (UPIScamDetector_step message_lower) SCAM_PATTERNS ([], 0.0, [])"

definition UPIScamDetector_urgency_words :: "string list" where
  "UPIScamDetector_urgency_words =
     [''urgent'', ''immediately'', ''now'', ''hurry'', ''fast'', ''quick'', ''limited'', ''expire'']"

record tool_result =
  tr_risk_score :: real
  tr_patterns_detected :: "detected_pattern list"
  tr_is_scam :: bool
  tr_risk_level :: RiskLevel
  tr_confidence :: real

text \<open>
  \<^verbatim>\<open>UPIScamDetector.analyze(message, amount)\<close>. \<^verbatim>\<open>if amount and amount in ODD_AMOUNTS\<close>:
  an absent amount and the amount 0 are false.
\<close>

definition UPIScamDetector_analyze :: "string \<Rightarrow> real option \<Rightarrow> tool_result" where
  "UPIScamDetector_analyze message amount =
     (let message_lower = lower message;
          (detected_patterns, total_risk0, evidence) = UPIScamDetector_scan message_lower;
          urgency_count = count_hits UPIScamDetector_urgency_words message_lower;
          total_risk1 = (if urgency_count > 0 then min (total_risk0 + 0.1 * real urgency_count) 1.0
                         else total_risk0);
          total_risk = (case amount of
                          None \<Rightarrow> total_risk1
                        | Some a \<Rightarrow> if a \<noteq> 0 \<and> a \<in> set ODD_AMOUNTS
                                    then min (total_risk1 + 0.15) 1.0 else total_risk1);
          risk_level = (if total_risk \<ge> 0.9 then CRITICAL
                        else if total_risk \<ge> 0.7 then HIGH
                        else if total_risk \<ge> 0.4 then MEDIUM
                        else if total_risk > 0 then LOW
                        else SAFE)
      in \<lparr>tr_risk_score = total_risk, tr_patterns_detected = detected_patterns,
          tr_is_scam = (total_risk \<ge> 0.7), tr_risk_level = risk_level,
          tr_confidence = (if detected_patterns \<noteq> [] then 0.85 else 0.6)\<rparr>)"

subsection \<open>Regular expressions of the specialists\<close>

text \<open>
  The patterns given to \<^verbatim>\<open>re.search\<close> are lower-case literals (\<^verbatim>\<open>bit\.ly\<close>) or two
  literals around \<^verbatim>\<open>.*\<close> (\<^verbatim>\<open>download.*app\<close>); the subject is already lower-cased, so
  \<^verbatim>\<open>re.IGNORECASE\<close> changes nothing on ASCII text. \<^verbatim>\<open>.\<close> matches every character but
  the newline: \<^verbatim>\<open>a.*b\<close> is found when \<open>b\<close> occurs after an occurrence of \<open>a\<close> with no
  newline between them (the literals hold no newline).
\<close>

datatype regex = Lit string | Gap string string

fun search_gap :: "string \<Rightarrow> string \<Rightarrow> string \<Rightarrow> bool" where
  "search_gap a b [] = (a = [] \<and> b = [])"
| "search_gap a b (c # cs) =
     ((startswith (c # cs) a
        \<and> str_in b (takeWhile (\<lambda>x. x \<noteq> CHR 0x0A) (drop (length a) (c # cs))))
      \<or> search_gap a b cs)"

fun re_search :: "regex \<Rightarrow> string \<Rightarrow> bool" where
  "re_search (Lit a) s = str_in a s"
| "re_search (Gap a b) s = search_gap a b s"

text \<open>\<^verbatim>\<open>\d\<close> and \<^verbatim>\<open>\s\<close> on ASCII text (\<^verbatim>\<open>\s\<close> of a \<^verbatim>\<open>str\<close> pattern covers 0x1C to 0x1F).\<close>

definition is_digit :: "char \<Rightarrow> bool" where
  "is_digit c = (c \<in> set ''0123456789'')"

definition is_space :: "char \<Rightarrow> bool" where
  "is_space c = (c \<in> set [CHR 0x20, CHR 0x09, CHR 0x0A, CHR 0x0B, CHR 0x0C, CHR 0x0D,
                           CHR 0x1C, CHR 0x1D, CHR 0x1E, CHR 0x1F])"

subsection \<open>PhishingAgent\<close>

record indicator =
  ind_name :: string
  ind_patterns :: "regex list"
  ind_risk :: real

definition phishing_indicators :: "indicator list" where
  "phishing_indicators =
     [\<lparr>ind_name = ''apk_download'',
        ind_patterns = [Lit ''.apk'', Gap ''download'' ''app'', Gap ''install'' ''app''],
        ind_risk = 0.98\<rparr>,
      \<lparr>ind_name = ''shortened_url'',
        ind_patterns = [Lit ''bit.ly'', Lit ''tinyurl'', Lit ''goo.gl'', Lit ''t.co'', Lit ''short.''],
        ind_risk = 0.85\<rparr>,
      \<lparr>ind_name = ''fake_bank'',
        ind_patterns = [Gap ''sbi'' ''update'', Gap ''hdfc'' ''kyc'', Gap ''icici'' ''verify'',
                        Gap ''axis'' ''confirm''],
        ind_risk = 0.90\<rparr>,
      \<lparr>ind_name = ''account_threat'',
        ind_patterns = [Gap ''block'' ''account'', Lit ''suspend'', Lit ''freeze'',
                        Lit ''deactivate'', Gap ''close'' ''account''],
        ind_risk = 0.80\<rparr>,
      \<lparr>ind_name = ''screen_share'',
        ind_patterns = [Lit ''anydesk'', Lit ''teamviewer'', Lit ''quicksupport'',
                        Gap ''screen'' ''share''],
        ind_risk = 0.95\<rparr>,
      \<lparr>ind_name = ''otp_request'',
        ind_patterns = [Gap ''share'' ''otp'', Gap ''enter'' ''otp'', Gap ''send'' ''otp'',
                        Gap ''otp'' ''verification''],
        ind_risk = 0.96\<rparr>]"

text \<open>
  One iteration of the loop over \<^verbatim>\<open>self.phishing_indicators.items()\<close>: the inner loop
  stops at the first pattern found, so an indicator counts once.
\<close>

definition PhishingAgent_step :: "string \<Rightarrow> indicator \<Rightarrow> real \<Rightarrow> real" where
  "PhishingAgent_step content_lower d max_risk =
     (if list_ex (\<lambda>pattern. re_search pattern content_lower) (ind_patterns d)
      then max max_risk (ind_risk d) else max_risk)"

text \<open>\<^verbatim>\<open>PhishingAgent.analyze\<close>; the band table has three tiers.\<close>

definition PhishingAgent_analyze :: "string \<Rightarrow> finding" where
  "PhishingAgent_analyze content =
     (let content_lower = lower content;
          max_risk0 = fold (PhishingAgent_step content_lower) phishing_indicators 0.0;
          max_risk = (if str_in ''kyc'' content_lower
                         \<and> (str_in ''update'' content_lower \<or> str_in ''verify'' content_lower)
                      then (if max_risk0 < 0.8 then 0.85 else max_risk0)
                      else max_risk0);
          level = (if max_risk \<ge> 0.9 then ''CRITICAL''
                   else if max_risk \<ge> 0.7 then ''HIGH''
                   else ''LOW'')
      in \<lparr>agent = Some ''phishing_agent'', risk_score = Some max_risk,
          threat_level = Some level\<rparr>)"

subsection \<open>ImpersonationAgent\<close>

definition authority_keywords :: "string list" where
  "authority_keywords =
     [''police'', ''cbi'', ''ed'', ''enforcement directorate'', ''crime branch'',
      ''cyber cell'', ''income tax'', ''customs'', ''narcotics'', ''ncb'',
      ''interpol'', ''fir'', ''warrant'', ''court order'', ''legal notice'']"

definition threat_indicators :: "string list" where
  "threat_indicators =
     [''arrest'', ''custody'', ''jail'', ''prison'', ''warrant'',
      ''case against'', ''charges'', ''investigation'', ''questioning'',
      ''money laundering'', ''illegal'', ''suspicious activity'']"

text \<open>The rupee sign is its three UTF-8 bytes.\<close>

definition money_demands :: "string list" where
  "money_demands =
     [''pay'', ''transfer'', ''fine'', ''penalty'', ''fee'', ''deposit'',
      ''security'', ''bail'', [CHR 0xE2, CHR 0x82, CHR 0xB9], ''rs'', ''rupee'', ''lakh'', ''crore'']"

text \<open>\<^verbatim>\<open>ImpersonationAgent.analyze\<close>; a non-empty list is true.\<close>

definition ImpersonationAgent_analyze :: "string \<Rightarrow> finding" where
  "ImpersonationAgent_analyze content =
     (let content_lower = lower content;
          authority_hits = hits authority_keywords content_lower;
          threat_hits = hits threat_indicators content_lower;
          money_hits = hits money_demands content_lower;
          r0 = 0.0;
          r1 = (if authority_hits \<noteq> [] then r0 + 0.3 * real (min (length authority_hits) 3) else r0);
          r2 = (if threat_hits \<noteq> [] then r1 + 0.25 * real (min (length threat_hits) 3) else r1);
          r3 = (if money_hits \<noteq> [] then r2 + 0.35 else r2);
          r4 = (if any_in [''video call'', ''whatsapp video'', ''online arrest'', ''digital arrest'']
                     content_lower
                then r3 + 0.25 else r3);
          score = min r4 1.0;
          level = (if score \<ge> 0.8 then ''CRITICAL''
                   else if score \<ge> 0.5 then ''HIGH''
                   else ''LOW'')
      in \<lparr>agent = Some ''impersonation_agent'', risk_score = Some score,
          threat_level = Some level\<rparr>)"

subsection \<open>DocumentAnalystAgent\<close>

text \<open>An issue group of a red-flag table: the issue's name and its keywords.\<close>

definition loan_red_flags :: "(string \<times> string list) list" where
  "loan_red_flags =
     [(''floating_rate'', [''floating'', ''variable rate'', ''linked to repo'', ''subject to change'']),
      (''foreclosure_penalty'', [''foreclosure charge'', ''prepayment penalty'', ''early closure fee'']),
      (''hidden_fees'', [''processing fee'', ''documentation charge'', ''verification fee'']),
      (''forced_insurance'', [''mandatory insurance'', ''credit protect'', ''loan cover'']),
      (''penal_interest'', [''penal interest'', ''default charge'', ''late payment penalty''])]"

definition insurance_red_flags :: "(string \<times> string list) list" where
  "insurance_red_flags =
     [(''pre_existing'', [''pre-existing'', ''prior condition'', ''existing disease'']),
      (''waiting_period'', [''waiting period'', ''cooling off'', ''dormant period'']),
      (''sub_limits'', [''sub-limit'', ''room rent cap'', ''per day maximum'']),
      (''co_payment'', [''co-pay'', ''co-insurance'', ''borne by insured'']),
      (''exclusions'', [''not covered'', ''excluded'', ''exception'', ''does not cover''])]"

text \<open>
  The loop over the table appends one issue for a group with a keyword in the content
  (the inner loop breaks at the first one): the issues found are the groups hit.
\<close>

definition found_groups :: "(string \<times> string list) list \<Rightarrow> string \<Rightarrow> string list" where
  "found_groups table content_lower =
     map fst (filter (\<lambda>(issue_name, kws). list_ex (\<lambda>kw. str_in (lower kw) content_lower) kws) table)"

text \<open>
  \<^verbatim>\<open>re.search(r'(\d+\.?\d*)\s*%\s*(p\.?a\.?|per\s*annum)?', content_lower)\<close>. At a given
  start the match is forced: the longest run of digits, a dot if one follows, the longest
  run of digits again, spaces, then the percent sign; the classes are disjoint, so
  backtracking finds nothing else, and the optional tail never makes a match fail.
  \<open>rate_at\<close> gives the two digit runs of group 1 at the start of \<open>s\<close>.
\<close>

definition rate_at :: "string \<Rightarrow> (string \<times> string) option" where
  "rate_at s =
     (let whole = takeWhile is_digit s; rest = dropWhile is_digit s
      in if whole = [] then None
         else (case rest of
                 c # cs \<Rightarrow>
                   if c = CHR ''.'' then
                     (let frac = takeWhile is_digit cs;
                          rest2 = dropWhile is_space (dropWhile is_digit cs)
                      in if startswith rest2 ''%'' then Some (whole, frac) else None)
                   else if startswith (dropWhile is_space rest) ''%'' then Some (whole, [])
                   else None
               | [] \<Rightarrow> None))"

text \<open>\<^verbatim>\<open>re.search\<close> takes the leftmost start that matches.\<close>

fun rate_search :: "string \<Rightarrow> (string \<times> string) option" where
  "rate_search [] = None"
| "rate_search (c # cs) =
     (case rate_at (c # cs) of Some g \<Rightarrow> Some g | None \<Rightarrow> rate_search cs)"

text \<open>\<^verbatim>\<open>float(rate_match.group(1))\<close>: the value of the decimal numeral.\<close>

definition digit_val :: "char \<Rightarrow> nat" where
  "digit_val c = of_char c - 48"

definition digits_val :: "string \<Rightarrow> nat" where
  "digits_val ds = foldl (\<lambda>n c. 10 * n + digit_val c) 0 ds"

definition float_of_group :: "string \<times> string \<Rightarrow> real" where
  "float_of_group g = real (digits_val (fst g)) + real (digits_val (snd g)) / 10 ^ length (snd g)"

text \<open>
  \<^verbatim>\<open>DocumentAnalystAgent.analyze(content, doc_type)\<close>. \<^verbatim>\<open>if interest_rate and
  interest_rate > 15\<close> adds one more issue. The result dictionary has no threat tier.
\<close>

definition DocumentAnalystAgent_issue_count :: "string \<Rightarrow> string \<Rightarrow> nat" where
  "DocumentAnalystAgent_issue_count content doc_type =
     (let content_lower = lower content;
          table = (if doc_type = ''loan'' then loan_red_flags else insurance_red_flags);
          found_issues = found_groups table content_lower;
          interest_rate = map_option float_of_group (rate_search content_lower)
      in case interest_rate of
           None \<Rightarrow> length found_issues
         | Some rate \<Rightarrow> if rate \<noteq> 0 \<and> rate > 15 then length found_issues + 1
                        else length found_issues)"

definition DocumentAnalystAgent_analyze :: "string \<Rightarrow> string \<Rightarrow> finding" where
  "DocumentAnalystAgent_analyze content doc_type =
     \<lparr>agent = Some ''document_agent'',
      risk_score = Some (min (real (DocumentAnalystAgent_issue_count content doc_type) * 0.2) 1.0),
      threat_level = None\<rparr>"

subsection \<open>InvestmentFraudAgent\<close>

definition scam_indicators :: "string list" where
  "scam_indicators =
     [''guaranteed returns'', ''risk-free'', ''double your money'',
      ''high returns'', ''100% profit'', ''fixed return'',
      ''no loss'', ''sure profit'', ''income guarantee'']"

definition red_flag_terms :: "string list" where
  "red_flag_terms =
     [''referral bonus'', ''mlm'', ''network marketing'',
      ''joining fee'', ''registration fee'', ''crypto trading'',
      ''forex'', ''binary options'', ''daily profit'']"

text \<open>
  \<^verbatim>\<open>re.search(r'(\d+)\s*%\s*(daily|weekly|monthly|per month)', content_lower)\<close>: at a
  start, digits, spaces, the percent sign, spaces, then one of the four words.
\<close>

definition return_at :: "string \<Rightarrow> bool" where
  "return_at s =
     (takeWhile is_digit s \<noteq> []
      \<and> (let rest = dropWhile is_space (dropWhile is_digit s)
         in startswith rest ''%''
            \<and> list_ex (startswith (dropWhile is_space (drop 1 rest)))
                 [''daily'', ''weekly'', ''monthly'', ''per month'']))"

fun return_search :: "string \<Rightarrow> bool" where
  "return_search [] = False"
| "return_search (c # cs) = (return_at (c # cs) \<or> return_search cs)"

text \<open>\<^verbatim>\<open>InvestmentFraudAgent.analyze\<close>.\<close>

definition InvestmentFraudAgent_analyze :: "string \<Rightarrow> finding" where
  "InvestmentFraudAgent_analyze content =
     (let content_lower = lower content;
          scam_hits = hits scam_indicators content_lower;
          red_flag_hits = hits red_flag_terms content_lower;
          r0 = 0.0;
          r1 = (if scam_hits \<noteq> [] then r0 + 0.4 * real (min (length scam_hits) 3) else r0);
          r2 = (if red_flag_hits \<noteq> [] then r1 + 0.3 * real (min (length red_flag_hits) 3) else r1);
          r3 = (if return_search content_lower then max r2 0.95 else r2);
          score = min r3 1.0;
          level = (if score \<ge> 0.8 then ''CRITICAL''
                   else if score \<ge> 0.5 then ''HIGH''
                   else ''LOW'')
      in \<lparr>agent = Some ''investment_agent'', risk_score = Some score,
          threat_level = Some level\<rparr>)"

subsection \<open>Calls with a value that is not text\<close>

text \<open>
  Python checks no annotation: \<^verbatim>\<open>analyze(content: str)\<close> can be called with any value.
  Every specialist's \<^verbatim>\<open>analyze\<close> starts with \<^verbatim>\<open>content_lower = content.lower()\<close>, which
  raises \<^verbatim>\<open>AttributeError\<close> on a value without that method; nothing in the method catches
  it.
\<close>

datatype py_value = PyNone | PyStr string | PyInt int

datatype py_error = AttributeError

definition call_analyze :: "(string \<Rightarrow> finding) \<Rightarrow> py_value \<Rightarrow> py_error + finding" where
  "call_analyze analyze_method v =
     (case v of PyStr s \<Rightarrow> Inr (analyze_method s) | PyNone \<Rightarrow> Inl AttributeError
      | PyInt n \<Rightarrow> Inl AttributeError)"

section \<open>Orchestrator: routing and analysis\<close>

text \<open>\<^verbatim>\<open>_route_to_agents\<close>; the rupee sign is its three UTF-8 bytes.\<close>

definition route_to_agents :: "string \<Rightarrow> string list" where
  "route_to_agents content =
     (let content_lower = lower content;
          agents =
            (if any_in [''upi'', ''collect'', ''pay'', ''gpay'', ''phonepe'', ''paytm'', ''qr'',
                        [CHR 0xE2, CHR 0x82, CHR 0xB9], ''rs''] content_lower
             then [''upi''] else [])
            @ (if any_in [''kyc'', ''update'', ''verify'', ''bank'', ''apk'', ''download'', ''link'',
                          ''click''] content_lower
               then [''phishing''] else [])
            @ (if any_in [''police'', ''cbi'', ''ed'', ''arrest'', ''warrant'', ''customs'', ''parcel'']
                     content_lower
               then [''impersonation''] else [])
            @ (if any_in [''loan'', ''emi'', ''insurance'', ''policy'', ''premium'', ''interest rate'']
                     content_lower
               then [''document''] else [])
            @ (if any_in [''invest'', ''return'', ''profit'', ''trading'', ''crypto'', ''forex'',
                          ''double''] content_lower
               then [''investment''] else [])
      in if agents = [] then [''upi'', ''phishing'', ''impersonation''] else agents)"

text \<open>
  \<^verbatim>\<open>self.specialists\<close>, built once in \<^verbatim>\<open>__init__\<close>: the key of each specialist and its
  \<^verbatim>\<open>analyze\<close> method (the document agent with its default \<^verbatim>\<open>doc_type='loan'\<close>).
\<close>

definition specialists :: "string \<Rightarrow> (string \<Rightarrow> finding) option" where
  "specialists =
     map_of [(''upi'', UPIFraudAgent_analyze),
             (''phishing'', PhishingAgent_analyze),
             (''impersonation'', ImpersonationAgent_analyze),
             (''document'', \<lambda>content. DocumentAnalystAgent_analyze content ''loan''),
             (''investment'', InvestmentFraudAgent_analyze)]"

text \<open>
  The state of the orchestrator object: the trajectory library, fixed after
  \<^verbatim>\<open>__init__\<close>, and the three counters of \<^verbatim>\<open>self.stats\<close>.
\<close>

record orchestrator =
  orc_trajectories :: "trajectory list"
  total_analyses :: nat
  threats_detected :: nat
  critical_blocks :: nat

record protection_result =
  pr_threat_level :: string
  pr_risk_score :: real
  pr_primary_threat :: "string option"
  recommendations :: "string list"
  agent_findings :: "finding list"
  matched_trajectory :: "trajectory option"
  emergency_action :: bool
  timestamp :: string

text \<open>
  The loop \<^verbatim>\<open>for agent_id in agents_to_use\<close>: a key without a specialist is skipped, the
  results keep the routing order.
\<close>

definition run_agents :: "string list \<Rightarrow> string \<Rightarrow> finding list" where
  "run_agents agents_to_use content =
     List.map_filter (\<lambda>agent_id. map_option (\<lambda>analyze_method. analyze_method content)
                                             (specialists agent_id)) agents_to_use"

text \<open>
  \<^verbatim>\<open>FinancialBodyguardOrchestrator.analyze\<close>, as a step on the orchestrator's state. The
  reading of the clock for \<^verbatim>\<open>timestamp\<close> is the argument \<open>now\<close>.
\<close>

definition analyze ::
  "orchestrator \<Rightarrow> string \<Rightarrow> string \<Rightarrow> int \<Rightarrow> protection_result \<times> orchestrator" where
  "analyze self now content user_age =
     (let self1 = self\<lparr>total_analyses := total_analyses self + 1\<rparr>;
          agents_to_use = route_to_agents content;
          agent_results = run_agents agents_to_use content;
          agg = aggregate_results agent_results;
          matched = match_trajectory (orc_trajectories self1) content agg;
          recs = generate_recommendations (agg_threat_level agg) (agg_risk_score agg) user_age;
          self2 = (if agg_threat_level agg \<in> set [''HIGH'', ''CRITICAL'']
                   then self1\<lparr>threats_detected := threats_detected self1 + 1\<rparr> else self1);
          self3 = (if agg_threat_level agg = ''CRITICAL''
                   then self2\<lparr>critical_blocks := critical_blocks self2 + 1\<rparr> else self2)
      in (\<lparr>pr_threat_level = agg_threat_level agg,
           pr_risk_score = agg_risk_score agg,
           pr_primary_threat = primary_threat agg,
           recommendations = recs,
           agent_findings = agent_results,
           matched_trajectory = matched,
           emergency_action = (agg_threat_level agg = ''CRITICAL''),
           timestamp = now\<rparr>, self3))"

section \<open>Agent execution\<close>

datatype TaskStatus = PENDING | RUNNING | COMPLETED | FAILED | DELEGATED

record task =
  task_id :: string
  task_type :: string
  task_content :: string

text \<open>
  The dictionary returned by \<^verbatim>\<open>_plan\<close>, read with \<^verbatim>\<open>plan.get\<close>: a missing key is
  \<open>None\<close>.
\<close>

record plan =
  delegate_to :: "string option"
  use_tools :: "string list option"
  reasoning :: "string option"

text \<open>
  Result payloads. Every step of \<^verbatim>\<open>BaseAgent\<close> is declared to return a dictionary
  (\<^verbatim>\<open>Dict[str, Any]\<close>); a dictionary is the list of its items in insertion order, its
  values are texts, numbers or dictionaries again.
\<close>

datatype py_obj = PText string | PNum real | PDict "(string \<times> py_obj) list"

type_synonym py_dict = "(string \<times> py_obj) list"

text \<open>\<^verbatim>\<open>d[k] = v\<close> (an existing key keeps its place) and \<^verbatim>\<open>k in d\<close>.\<close>

fun dict_set :: "string \<Rightarrow> py_obj \<Rightarrow> py_dict \<Rightarrow> py_dict" where
  "dict_set k v [] = [(k, v)]"
| "dict_set k v ((k', v') # d) = (if k = k' then (k, v) # d else (k', v') # dict_set k v d)"

definition has_key :: "string \<Rightarrow> py_dict \<Rightarrow> bool" where
  "has_key k d = (k \<in> set (map fst d))"

text \<open>
  What a call may raise, with the text \<^verbatim>\<open>str(e)\<close>: an instance of \<^verbatim>\<open>Exception\<close>, which
  the handlers \<^verbatim>\<open>except Exception\<close> catch, or another \<^verbatim>\<open>BaseException\<close>
  (\<^verbatim>\<open>KeyboardInterrupt\<close>, \<^verbatim>\<open>SystemExit\<close>), which they do not.
\<close>

datatype raised = Exception string | BaseException string

record task_result =
  tr_task_id :: string
  tr_agent_id :: string
  status :: TaskStatus
  result :: py_dict
  confidence :: real
  tr_reasoning :: string
  execution_time :: real

text \<open>
  An agent object as \<^verbatim>\<open>execute\<close> sees it: its id and the methods that \<^verbatim>\<open>execute\<close> calls
  on \<^verbatim>\<open>self\<close>. A subclass may override each of them; the bodies of \<^verbatim>\<open>BaseAgent\<close> itself
  are given below.
\<close>

record base_agent =
  agent_id :: string
  plan_method :: "task \<Rightarrow> raised + plan"
  delegate_method :: "task \<Rightarrow> string \<Rightarrow> raised + py_dict"
  use_tools_method :: "task \<Rightarrow> string list \<Rightarrow> raised + py_dict"
  generate_response_method :: "task \<Rightarrow> raised + py_dict"
  verify_method :: "task \<Rightarrow> py_dict \<Rightarrow> raised + py_dict"
  calculate_confidence_method :: "py_dict \<Rightarrow> raised + real"

text \<open>
  Step 2 of \<^verbatim>\<open>execute\<close>: \<^verbatim>\<open>plan.get('delegate_to')\<close> and \<^verbatim>\<open>plan.get('use_tools')\<close> are
  tested for truth, so an empty id and an empty list fall through.
\<close>

definition execute_plan :: "base_agent \<Rightarrow> task \<Rightarrow> plan \<Rightarrow> raised + py_dict" where
  "execute_plan self t p =
     (case delegate_to p of
        Some target \<Rightarrow>
          if target \<noteq> [] then delegate_method self t target
          else (case use_tools p of
                  Some names \<Rightarrow> if names \<noteq> [] then use_tools_method self t names
                                 else generate_response_method self t
                | None \<Rightarrow> generate_response_method self t)
      | None \<Rightarrow>
          (case use_tools p of
             Some names \<Rightarrow> if names \<noteq> [] then use_tools_method self t names
                            else generate_response_method self t
           | None \<Rightarrow> generate_response_method self t))"

text \<open>
  The body of the \<^verbatim>\<open>try\<close> block up to the construction of the result: the plan, the
  verified result and the confidence, or what the first failing step raised.
\<close>

definition try_body :: "base_agent \<Rightarrow> task \<Rightarrow> raised + (plan \<times> py_dict \<times> real)" where
  "try_body self t =
     (case plan_method self t of
        Inl x \<Rightarrow> Inl x
      | Inr p \<Rightarrow>
          (case execute_plan self t p of
             Inl x \<Rightarrow> Inl x
           | Inr r \<Rightarrow>
               (case verify_method self t r of
                  Inl x \<Rightarrow> Inl x
                | Inr verified_result \<Rightarrow>
                    (case calculate_confidence_method self verified_result of
                       Inl x \<Rightarrow> Inl x
                     | Inr c \<Rightarrow> Inr (p, verified_result, c)))))"

text \<open>
  \<^verbatim>\<open>BaseAgent.execute\<close>, as a step on \<^verbatim>\<open>self.task_history\<close>; \<open>start_time\<close> and
  \<open>end_time\<close> are the two readings of the clock. Only a completed result is appended to
  the history. The handler is \<^verbatim>\<open>except Exception\<close>: it builds the FAILED result from an
  \<^verbatim>\<open>Exception\<close> and lets any other \<^verbatim>\<open>BaseException\<close> pass to the caller (\<open>Inl\<close>).
\<close>

definition execute ::
  "base_agent \<Rightarrow> task_result list \<Rightarrow> real \<Rightarrow> real \<Rightarrow> task
     \<Rightarrow> raised + (task_result \<times> task_result list)" where
  "execute self task_history start_time end_time t =
     (case try_body self t of
        Inr (p, verified_result, c) \<Rightarrow>
          (let task_result =
                 \<lparr>tr_task_id = task_id t, tr_agent_id = agent_id self, status = COMPLETED,
                  result = verified_result, confidence = c,
                  tr_reasoning = (case reasoning p of Some text \<Rightarrow> text | None \<Rightarrow> []),
                  execution_time = end_time - start_time\<rparr>
           in Inr (task_result, task_history @ [task_result]))
      | Inl (Exception e) \<Rightarrow>
          Inr (\<lparr>tr_task_id = task_id t, tr_agent_id = agent_id self, status = FAILED,
                result = [(''error'', PText e)], confidence = 0.0,
                tr_reasoning = ''Execution failed: '' @ e,
                execution_time = end_time - start_time\<rparr>, task_history)
      | Inl (BaseException b) \<Rightarrow> Inl (BaseException b))"

subsection \<open>The methods of BaseAgent\<close>

text \<open>
  \<^verbatim>\<open>ToolRegistry._tools\<close>: the registered tools by name. A tool's function is called with
  the content of the task and returns a value or raises.
\<close>

type_synonym tool_registry = "(string \<times> (string \<Rightarrow> raised + py_obj)) list"

definition ToolRegistry_get :: "tool_registry \<Rightarrow> string \<Rightarrow> (string \<Rightarrow> raised + py_obj) option" where
  "ToolRegistry_get registry name = map_of registry name"

text \<open>\<^verbatim>\<open>ToolRegistry.execute\<close>: an unknown name raises \<^verbatim>\<open>ValueError\<close>.\<close>

definition ToolRegistry_execute :: "tool_registry \<Rightarrow> string \<Rightarrow> string \<Rightarrow> raised + py_obj" where
  "ToolRegistry_execute registry name content_arg =
     (case map_of registry name of
        Some tool_function \<Rightarrow> tool_function content_arg
      | None \<Rightarrow> Inl (Exception (''Tool '' @ name @ '' not found'')))"

text \<open>
  The data of a \<^verbatim>\<open>BaseAgent\<close> object: id, name, the \<^verbatim>\<open>tools\<close> property (empty unless
  overridden), the registered sub-agents with their ids and names, the client of the
  generative-language service when one is configured (called with the content, it
  returns the generated text or raises), and the predicate \<^verbatim>\<open>_should_delegate\<close>, which
  the source leaves to subclasses and which is constantly false in \<^verbatim>\<open>BaseAgent\<close>.
\<close>

record agent_data =
  ad_agent_id :: string
  ad_name :: string
  ad_tools :: "string list"
  ad_sub_agents :: "(string \<times> string \<times> base_agent) list"
  ad_client :: "(string \<Rightarrow> raised + string) option"
  ad_should_delegate :: "task \<Rightarrow> string \<Rightarrow> bool"

text \<open>\<^verbatim>\<open>', '.join(names)\<close>.\<close>

fun join :: "string \<Rightarrow> string list \<Rightarrow> string" where
  "join sep [] = []"
| "join sep [x] = x"
| "join sep (x # y # ys) = x @ sep @ join sep (y # ys)"

text \<open>
  \<^verbatim>\<open>BaseAgent._plan\<close>: the first sub-agent that \<^verbatim>\<open>_should_delegate\<close> accepts; otherwise
  the tools of the agent that are registered (\<^verbatim>\<open>_tool_matches\<close> is constantly true);
  otherwise a direct response.
\<close>

definition BaseAgent_plan :: "tool_registry \<Rightarrow> agent_data \<Rightarrow> task \<Rightarrow> raised + plan" where
  "BaseAgent_plan registry d t =
     (case find (\<lambda>(sub_id, sub_name, sub). ad_should_delegate d t sub_id) (ad_sub_agents d) of
        Some (sub_id, sub_name, sub) \<Rightarrow>
          Inr \<lparr>delegate_to = Some sub_id, use_tools = None,
               reasoning = Some (''Delegating to '' @ sub_name @ '' for specialized handling'')\<rparr>
      | None \<Rightarrow>
          (let tools_to_use =
                 filter (\<lambda>tool_name. case ToolRegistry_get registry tool_name of
                                        Some tool \<Rightarrow> True | None \<Rightarrow> False) (ad_tools d)
           in if tools_to_use \<noteq> [] then
                Inr \<lparr>delegate_to = None, use_tools = Some tools_to_use,
                     reasoning = Some (''Using tools: '' @ join '', '' tools_to_use)\<rparr>
              else
                Inr \<lparr>delegate_to = None, use_tools = None,
                     reasoning = Some ''Generating direct response''\<rparr>))"

text \<open>
  \<^verbatim>\<open>BaseAgent._use_tools\<close>: each tool runs inside its own \<^verbatim>\<open>try\<close>; an \<^verbatim>\<open>Exception\<close>
  becomes the entry \<^verbatim>\<open>{"error": str(e)}\<close> of that tool and the loop goes on.
\<close>

fun use_tools_loop :: "tool_registry \<Rightarrow> string \<Rightarrow> string list \<Rightarrow> py_dict \<Rightarrow> raised + py_dict" where
  "use_tools_loop registry content_arg [] results = Inr results"
| "use_tools_loop registry content_arg (tool_name # rest) results =
     (case ToolRegistry_execute registry tool_name content_arg of
        Inr v \<Rightarrow> use_tools_loop registry content_arg rest (dict_set tool_name v results)
      | Inl (Exception e) \<Rightarrow>
          use_tools_loop registry content_arg rest
            (dict_set tool_name (PDict [(''error'', PText e)]) results)
      | Inl (BaseException b) \<Rightarrow> Inl (BaseException b))"

definition BaseAgent_use_tools :: "tool_registry \<Rightarrow> task \<Rightarrow> string list \<Rightarrow> raised + py_dict" where
  "BaseAgent_use_tools registry t tool_names =
     use_tools_loop registry (task_content t) tool_names []"

text \<open>
  \<^verbatim>\<open>BaseAgent._delegate\<close>: the payload of the sub-agent's own \<^verbatim>\<open>execute\<close>, or an error
  dictionary for an id that is not registered. The payload does not depend on the
  sub-agent's history or clock, which are not followed here.
\<close>

definition BaseAgent_delegate :: "agent_data \<Rightarrow> task \<Rightarrow> string \<Rightarrow> raised + py_dict" where
  "BaseAgent_delegate d t target =
     (case map_of (ad_sub_agents d) target of
        Some (sub_name, sub) \<Rightarrow>
          (case execute sub [] 0 0 t of
             Inr (sub_result, sub_history) \<Rightarrow> Inr (result sub_result)
           | Inl x \<Rightarrow> Inl x)
      | None \<Rightarrow> Inr [(''error'', PText (''Agent '' @ target @ '' not found''))])"

text \<open>
  \<^verbatim>\<open>BaseAgent._fallback_response\<close> (the slice \<^verbatim>\<open>[:100]\<close> counts characters, which are
  bytes on ASCII text) and \<^verbatim>\<open>BaseAgent._generate_response\<close>: an \<^verbatim>\<open>Exception\<close> of the
  service becomes an error dictionary.
\<close>

definition BaseAgent_fallback_response :: "agent_data \<Rightarrow> task \<Rightarrow> string" where
  "BaseAgent_fallback_response d t =
     ''['' @ ad_name d @ ''] Analyzed: '' @ take 100 (task_content t) @ ''...''"

definition BaseAgent_generate_response :: "agent_data \<Rightarrow> task \<Rightarrow> raised + py_dict" where
  "BaseAgent_generate_response d t =
     (case ad_client d of
        Some generate_content \<Rightarrow>
          (case generate_content (task_content t) of
             Inr text \<Rightarrow> Inr [(''response'', PText text)]
           | Inl (Exception e) \<Rightarrow> Inr [(''error'', PText e)]
           | Inl (BaseException b) \<Rightarrow> Inl (BaseException b))
      | None \<Rightarrow> Inr [(''response'', PText (BaseAgent_fallback_response d t))])"

text \<open>\<^verbatim>\<open>BaseAgent._verify\<close> and \<^verbatim>\<open>BaseAgent._calculate_confidence\<close>.\<close>

definition BaseAgent_verify :: "task \<Rightarrow> py_dict \<Rightarrow> raised + py_dict" where
  "BaseAgent_verify t r = Inr r"

definition BaseAgent_calculate_confidence :: "py_dict \<Rightarrow> raised + real" where
  "BaseAgent_calculate_confidence r = Inr (if has_key ''error'' r then 0.0 else 0.8)"

text \<open>An agent of class \<^verbatim>\<open>BaseAgent\<close>: every method is the one of the class.\<close>

definition BaseAgent :: "tool_registry \<Rightarrow> agent_data \<Rightarrow> base_agent" where
  "BaseAgent registry d =
     \<lparr>agent_id = ad_agent_id d,
      plan_method = BaseAgent_plan registry d,
      delegate_method = BaseAgent_delegate d,
      use_tools_method = BaseAgent_use_tools registry,
      generate_response_method = BaseAgent_generate_response d,
      verify_method = BaseAgent_verify,
      calculate_confidence_method = BaseAgent_calculate_confidence\<rparr>"

section \<open>Score formulas and band tables\<close>

text \<open>
  A two-tier pattern is matched by a text with at least one keyword hit and at least one
  indicator hit.
\<close>

definition two_tier_match :: "string \<Rightarrow> pattern \<Rightarrow> bool" where
  "two_tier_match s p =
     (count_hits (pat_keywords p) s > 0 \<and> count_hits (pat_indicators p) s > 0)"

text \<open>
  The per-pattern score with the cap applied to the product:
  \<open>min(1, base \<times> (offset + weight \<times> keyword_hits + weight \<times> indicator_hits))\<close>.
\<close>

definition clamped_score :: "real \<Rightarrow> real \<Rightarrow> string \<Rightarrow> pattern \<Rightarrow> real" where
  "clamped_score offset weight s p =
     min 1 (pat_risk p * (offset + weight * real (count_hits (pat_keywords p) s)
                                 + weight * real (count_hits (pat_indicators p) s)))"

text \<open>
  The per-pattern score as the specification words it:
  \<open>base_weight \<times> min(1, 0.5 + 0.25 \<times> keyword_hits + 0.25 \<times> indicator_hits)\<close>.
\<close>

definition claimed_score :: "string \<Rightarrow> pattern \<Rightarrow> real" where
  "claimed_score s p =
     pat_risk p * min 1 (0.5 + 0.25 * real (count_hits (pat_keywords p) s)
                             + 0.25 * real (count_hits (pat_indicators p) s))"

text \<open>
  The detector-local band table as the specification words it, on the tiers of
  \<^verbatim>\<open>RiskLevel\<close> and on the tier names of the specialists.
\<close>

definition claimed_band :: "real \<Rightarrow> RiskLevel" where
  "claimed_band r =
     (if r \<ge> 0.9 then CRITICAL else if r \<ge> 0.7 then HIGH else if r \<ge> 0.4 then MEDIUM
      else if r > 0 then LOW else SAFE)"

definition claimed_band_name :: "real \<Rightarrow> string" where
  "claimed_band_name r =
     (if r \<ge> 0.9 then ''CRITICAL'' else if r \<ge> 0.7 then ''HIGH''
      else if r \<ge> 0.4 then ''MEDIUM'' else if r > 0 then ''LOW'' else ''SAFE'')"

text \<open>The band tables that the specialists apply.\<close>

definition band_90_70_40 :: "real \<Rightarrow> string" where
  "band_90_70_40 r =
     (if r \<ge> 0.9 then ''CRITICAL'' else if r \<ge> 0.7 then ''HIGH''
      else if r \<ge> 0.4 then ''MEDIUM'' else ''LOW'')"

definition band_90_70 :: "real \<Rightarrow> string" where
  "band_90_70 r = (if r \<ge> 0.9 then ''CRITICAL'' else if r \<ge> 0.7 then ''HIGH'' else ''LOW'')"

definition band_80_50 :: "real \<Rightarrow> string" where
  "band_80_50 r = (if r \<ge> 0.8 then ''CRITICAL'' else if r \<ge> 0.5 then ''HIGH'' else ''LOW'')"

text \<open>
  The entry that \<^verbatim>\<open>_use_tools\<close> stores under a tool's name: the value the tool returned,
  or the error marker of the \<^verbatim>\<open>Exception\<close> it raised (there is none when the call lets a
  \<^verbatim>\<open>BaseException\<close> pass).
\<close>

definition tool_entry :: "tool_registry \<Rightarrow> string \<Rightarrow> string \<Rightarrow> py_obj option" where
  "tool_entry registry content_arg tool_name =
     (case ToolRegistry_execute registry tool_name content_arg of
        Inr v \<Rightarrow> Some v
      | Inl (Exception e) \<Rightarrow> Some (PDict [(''error'', PText e)])
      | Inl (BaseException b) \<Rightarrow> None)"

section \<open>Example inputs\<close>

text \<open>
  A small trajectory library in the shape of the data file, used to run the model. The
  first and the third entry share two red flags.
\<close>

definition example_library :: "trajectory list" where
  "example_library =
     [\<lparr>traj_id = ''T1'', traj_name = ''Digital arrest'',
        red_flags = [''CBI'', ''warrant'', ''video call''],
        detection_agent = ''impersonation_agent''\<rparr>,
      \<lparr>traj_id = ''T2'', traj_name = ''Fake KYC'',
        red_flags = [''KYC'', ''update'', ''link''],
        detection_agent = ''phishing_agent''\<rparr>,
      \<lparr>traj_id = ''T3'', traj_name = ''Fake police'',
        red_flags = [''cbi'', ''Warrant'', ''arrest''],
        detection_agent = ''impersonation_agent''\<rparr>]"

text \<open>An orchestrator with the example library and fresh counters.\<close>

definition example_orchestrator :: orchestrator where
  "example_orchestrator =
     \<lparr>orc_trajectories = example_library, total_analyses = 0, threats_detected = 0,
      critical_blocks = 0\<rparr>"

text \<open>
  A registry with one tool that raises and one that answers, and the data of an agent
  without sub-agents and without a configured service that lists three tools, the last
  of which is not registered.
\<close>

definition example_registry :: tool_registry where
  "example_registry =
     [(''upi_pattern_matcher'', \<lambda>content_arg. Inl (Exception ''pattern database unavailable'')),
      (''risk_calculator'', \<lambda>content_arg. Inr (PNum 0.5))]"

definition example_data :: agent_data where
  "example_data =
     \<lparr>ad_agent_id = ''example_agent'', ad_name = ''Example'',
      ad_tools = [''upi_pattern_matcher'', ''risk_calculator'', ''missing_tool''],
      ad_sub_agents = [], ad_client = None,
      ad_should_delegate = (\<lambda>t sub_id. False)\<rparr>"

text \<open>
  The same agent when the service is configured and fails, and a subclass of
  \<^verbatim>\<open>BaseAgent\<close> that overrides \<^verbatim>\<open>_generate_response\<close> with a method that raises; every
  other method is the one of \<^verbatim>\<open>BaseAgent\<close>.
\<close>

definition example_service_down :: agent_data where
  "example_service_down =
     example_data\<lparr>ad_tools := [],
                   ad_client := Some (\<lambda>content_arg. Inl (Exception ''service unavailable''))\<rparr>"

definition example_agent :: base_agent where
  "example_agent =
     (BaseAgent example_registry (example_data\<lparr>ad_tools := []\<rparr>))
       \<lparr>generate_response_method := (\<lambda>t. Inl (Exception ''empty content''))\<rparr>"

text \<open>
  An agent that delegates every task to its one sub-agent, the agent whose service fails.
\<close>

definition example_parent :: agent_data where
  "example_parent =
     example_data\<lparr>ad_agent_id := ''parent_agent'', ad_tools := [],
                   ad_sub_agents :=
                     [(''helper'', ''Helper'',
                       BaseAgent example_registry
                         (example_service_down\<lparr>ad_agent_id := ''helper'', ad_name := ''Helper''\<rparr>))],
                   ad_should_delegate := (\<lambda>t sub_id. True)\<rparr>"

definition example_task :: task where
  "example_task = \<lparr>task_id = ''t1'', task_type = ''fraud_detection'', task_content = ''hello''\<rparr>"

section \<open>Properties of the aggregation\<close>

lemma aggregate_risk_Max:
  "agg_risk_score (aggregate_results (r # rs)) = Max (set (map get_risk_score (r # rs)))"
proof -
  have "Max (set (get_risk_score r # map get_risk_score rs))
      = fold max (map get_risk_score rs) (get_risk_score r)"
    by (rule Max.set_eq_fold)
  then show ?thesis by (simp add: Let_def)
qed

lemma first_with_risk_index:
  assumes "m \<in> set (map get_risk_score rs)"
  shows "\<exists>i < length rs. get_risk_score (rs ! i) = m
           \<and> (\<forall>j < i. get_risk_score (rs ! j) \<noteq> m)
           \<and> first_with_risk m rs = Some (get_agent (rs ! i))"
  using assms
proof (induction rs)
  case Nil
  then show ?case by simp
next
  case (Cons r rs)
  show ?case
  proof (cases "get_risk_score r = m")
    case True
    then have "get_risk_score ((r # rs) ! 0) = m
        \<and> (\<forall>j < 0. get_risk_score ((r # rs) ! j) \<noteq> m)
        \<and> first_with_risk m (r # rs) = Some (get_agent ((r # rs) ! 0))"
      by simp
    then show ?thesis by blast
  next
    case False
    with Cons.prems have "m \<in> set (map get_risk_score rs)" by auto
    from Cons.IH [OF this] obtain i where i: "i < length rs"
      "get_risk_score (rs ! i) = m" "\<forall>j < i. get_risk_score (rs ! j) \<noteq> m"
      "first_with_risk m rs = Some (get_agent (rs ! i))" by blast
    have "\<forall>j < Suc i. get_risk_score ((r # rs) ! j) \<noteq> m"
    proof (intro allI impI)
      fix j assume "j < Suc i"
      then show "get_risk_score ((r # rs) ! j) \<noteq> m"
        using False i(3) by (cases j) auto
    qed
    with i False have "Suc i < length (r # rs) \<and> get_risk_score ((r # rs) ! Suc i) = m
        \<and> (\<forall>j < Suc i. get_risk_score ((r # rs) ! j) \<noteq> m)
        \<and> first_with_risk m (r # rs) = Some (get_agent ((r # rs) ! Suc i))"
      by simp
    then show ?thesis by blast
  qed
qed

text \<open>
  C1. For every non-empty list of findings, taken in invocation order, the aggregated
  risk score is the maximum of the findings' risk scores, and the primary threat is the
  agent id of the first finding of the list whose score is that maximum.
\<close>

theorem aggregate_max_and_primary:
  assumes "results \<noteq> []"
  shows "agg_risk_score (aggregate_results results) = Max (set (map get_risk_score results))
       \<and> (\<exists>i < length results.
             get_risk_score (results ! i) = agg_risk_score (aggregate_results results)
           \<and> (\<forall>j < i. get_risk_score (results ! j) \<noteq> agg_risk_score (aggregate_results results))
           \<and> primary_threat (aggregate_results results) = Some (get_agent (results ! i)))"
proof -
  from assms obtain r rs where rs: "results = r # rs" by (cases results) auto
  let ?m = "Max (set (map get_risk_score results))"
  have m: "agg_risk_score (aggregate_results results) = ?m"
    unfolding rs by (rule aggregate_risk_Max)
  have "?m \<in> set (map get_risk_score results)"
    using assms by (intro Max_in) auto
  from first_with_risk_index [OF this] obtain i where i: "i < length results"
    "get_risk_score (results ! i) = ?m" "\<forall>j < i. get_risk_score (results ! j) \<noteq> ?m"
    "first_with_risk ?m results = Some (get_agent (results ! i))" by blast
  have p: "primary_threat (aggregate_results results) = first_with_risk ?m results"
    using m unfolding rs by (simp add: Let_def)
  show ?thesis using m i p by auto
qed

theorem aggregate_max_and_primary_witness:
  "[\<lparr>agent = Some ''upi_fraud_agent'', risk_score = Some 0.5, threat_level = Some ''MEDIUM''\<rparr>,
    \<lparr>agent = Some ''phishing_agent'', risk_score = Some 0.85, threat_level = Some ''HIGH''\<rparr>,
    \<lparr>agent = Some ''impersonation_agent'', risk_score = Some 0.85,
      threat_level = Some ''CRITICAL''\<rparr>] \<noteq> []
   \<and> agg_risk_score (aggregate_results
      [\<lparr>agent = Some ''upi_fraud_agent'', risk_score = Some 0.5, threat_level = Some ''MEDIUM''\<rparr>,
       \<lparr>agent = Some ''phishing_agent'', risk_score = Some 0.85, threat_level = Some ''HIGH''\<rparr>,
       \<lparr>agent = Some ''impersonation_agent'', risk_score = Some 0.85,
         threat_level = Some ''CRITICAL''\<rparr>])
     = Max (set (map get_risk_score
      [\<lparr>agent = Some ''upi_fraud_agent'', risk_score = Some 0.5, threat_level = Some ''MEDIUM''\<rparr>,
       \<lparr>agent = Some ''phishing_agent'', risk_score = Some 0.85, threat_level = Some ''HIGH''\<rparr>,
       \<lparr>agent = Some ''impersonation_agent'', risk_score = Some 0.85,
         threat_level = Some ''CRITICAL''\<rparr>]))
   \<and> agg_risk_score (aggregate_results
      [\<lparr>agent = Some ''upi_fraud_agent'', risk_score = Some 0.5, threat_level = Some ''MEDIUM''\<rparr>,
       \<lparr>agent = Some ''phishing_agent'', risk_score = Some 0.85, threat_level = Some ''HIGH''\<rparr>,
       \<lparr>agent = Some ''impersonation_agent'', risk_score = Some 0.85,
         threat_level = Some ''CRITICAL''\<rparr>]) = 0.85
   \<and> primary_threat (aggregate_results
      [\<lparr>agent = Some ''upi_fraud_agent'', risk_score = Some 0.5, threat_level = Some ''MEDIUM''\<rparr>,
       \<lparr>agent = Some ''phishing_agent'', risk_score = Some 0.85, threat_level = Some ''HIGH''\<rparr>,
       \<lparr>agent = Some ''impersonation_agent'', risk_score = Some 0.85,
         threat_level = Some ''CRITICAL''\<rparr>]) = Some ''phishing_agent''"
  (is "?rs \<noteq> [] \<and> ?A \<and> ?B \<and> ?C")
proof -
  have h: "?rs \<noteq> []" by simp
  from aggregate_max_and_primary [OF h] have a: ?A by blast
  have b: ?B by (simp add: get_risk_score_def Let_def)
  have c: ?C by (simp add: get_risk_score_def get_agent_def Let_def)
  from h a b c show ?thesis by blast
qed

text \<open>
  C3. The aggregated threat tier is a function of the aggregated risk score alone, the
  band table 0.9 / 0.7 / 0.4 / 0.1 of the orchestrator: whatever the findings, the tier is
  the band of the aggregated score. An aggregated score of 0.95 is CRITICAL and one of
  0.65 is MEDIUM.
\<close>

theorem aggregate_tier_is_band:
  "agg_threat_level (aggregate_results results)
     = orchestrator_band (agg_risk_score (aggregate_results results))
   \<and> (agg_risk_score (aggregate_results results) = 0.95
        \<longrightarrow> agg_threat_level (aggregate_results results) = ''CRITICAL'')
   \<and> (agg_risk_score (aggregate_results results) = 0.65
        \<longrightarrow> agg_threat_level (aggregate_results results) = ''MEDIUM'')"
proof -
  have band: "agg_threat_level (aggregate_results results)
     = orchestrator_band (agg_risk_score (aggregate_results results))"
    by (cases results) (simp_all add: orchestrator_band_def Let_def)
  have hi: "orchestrator_band 0.95 = ''CRITICAL''"
    by (simp add: orchestrator_band_def)
  have mid: "orchestrator_band 0.65 = ''MEDIUM''"
    by (simp add: orchestrator_band_def)
  show ?thesis
  proof (intro conjI impI)
    show "agg_threat_level (aggregate_results results)
        = orchestrator_band (agg_risk_score (aggregate_results results))"
      by (rule band)
  next
    assume "agg_risk_score (aggregate_results results) = 0.95"
    with band hi show "agg_threat_level (aggregate_results results) = ''CRITICAL''"
      by (simp only:)
  next
    assume "agg_risk_score (aggregate_results results) = 0.65"
    with band mid show "agg_threat_level (aggregate_results results) = ''MEDIUM''"
      by (simp only:)
  qed
qed

theorem aggregate_tier_is_band_witness:
  "agg_risk_score (aggregate_results
      [\<lparr>agent = Some ''upi_fraud_agent'', risk_score = Some 0.95, threat_level = Some ''CRITICAL''\<rparr>,
       \<lparr>agent = Some ''phishing_agent'', risk_score = Some 0, threat_level = Some ''LOW''\<rparr>]) = 0.95
   \<and> agg_threat_level (aggregate_results
      [\<lparr>agent = Some ''upi_fraud_agent'', risk_score = Some 0.95, threat_level = Some ''CRITICAL''\<rparr>,
       \<lparr>agent = Some ''phishing_agent'', risk_score = Some 0, threat_level = Some ''LOW''\<rparr>])
      = ''CRITICAL''
   \<and> agg_risk_score (aggregate_results
      [\<lparr>agent = Some ''document_agent'', risk_score = Some 0.65, threat_level = None\<rparr>]) = 0.65
   \<and> agg_threat_level (aggregate_results
      [\<lparr>agent = Some ''document_agent'', risk_score = Some 0.65, threat_level = None\<rparr>])
      = ''MEDIUM''"
  (is "?A \<and> ?B \<and> ?C \<and> ?D")
proof -
  have a: ?A by (simp add: get_risk_score_def Let_def)
  have c: ?C by (simp add: get_risk_score_def Let_def)
  from a aggregate_tier_is_band [of
      "[\<lparr>agent = Some ''upi_fraud_agent'', risk_score = Some 0.95, threat_level = Some ''CRITICAL''\<rparr>,
        \<lparr>agent = Some ''phishing_agent'', risk_score = Some 0, threat_level = Some ''LOW''\<rparr>]"]
  have b: ?B by blast
  from c aggregate_tier_is_band [of
      "[\<lparr>agent = Some ''document_agent'', risk_score = Some 0.65, threat_level = None\<rparr>]"]
  have d: ?D by blast
  from a b c d show ?thesis by blast
qed

section \<open>Properties of trajectory matching\<close>

lemma match_loop_invariant:
  assumes "match_loop cl ts (bm, bs) = (bm', bs')"
  shows "bs \<le> bs' \<and> (\<forall>t \<in> set ts. flag_matches cl t \<le> bs')
       \<and> ((bm' = bm \<and> bs' = bs)
          \<or> (\<exists>i < length ts. bm' = Some (ts ! i) \<and> flag_matches cl (ts ! i) = bs' \<and> bs < bs'
                \<and> (\<forall>j < i. flag_matches cl (ts ! j) < bs')))"
  using assms
proof (induction ts arbitrary: bm bs)
  case Nil
  then show ?case by simp
next
  case (Cons t ts)
  show ?case
  proof (cases "flag_matches cl t > bs")
    case True
    with Cons.prems have run: "match_loop cl ts (Some t, flag_matches cl t) = (bm', bs')"
      by (simp add: Let_def)
    from Cons.IH [OF run] have le: "flag_matches cl t \<le> bs'"
      and all: "\<forall>u \<in> set ts. flag_matches cl u \<le> bs'"
      and alt: "(bm' = Some t \<and> bs' = flag_matches cl t)
          \<or> (\<exists>i < length ts. bm' = Some (ts ! i) \<and> flag_matches cl (ts ! i) = bs'
                \<and> flag_matches cl t < bs' \<and> (\<forall>j < i. flag_matches cl (ts ! j) < bs'))"
      by blast+
    from alt have "\<exists>i < length (t # ts). bm' = Some ((t # ts) ! i)
          \<and> flag_matches cl ((t # ts) ! i) = bs' \<and> bs < bs'
          \<and> (\<forall>j < i. flag_matches cl ((t # ts) ! j) < bs')"
    proof
      assume "bm' = Some t \<and> bs' = flag_matches cl t"
      with True have "0 < length (t # ts) \<and> bm' = Some ((t # ts) ! 0)
          \<and> flag_matches cl ((t # ts) ! 0) = bs' \<and> bs < bs'
          \<and> (\<forall>j < 0. flag_matches cl ((t # ts) ! j) < bs')" by simp
      then show ?thesis by blast
    next
      assume "\<exists>i < length ts. bm' = Some (ts ! i) \<and> flag_matches cl (ts ! i) = bs'
                \<and> flag_matches cl t < bs' \<and> (\<forall>j < i. flag_matches cl (ts ! j) < bs')"
      then obtain i where i: "i < length ts" "bm' = Some (ts ! i)"
        "flag_matches cl (ts ! i) = bs'" "flag_matches cl t < bs'"
        "\<forall>j < i. flag_matches cl (ts ! j) < bs'" by blast
      have "\<forall>j < Suc i. flag_matches cl ((t # ts) ! j) < bs'"
      proof (intro allI impI)
        fix j assume "j < Suc i"
        then show "flag_matches cl ((t # ts) ! j) < bs'"
          using i(4,5) by (cases j) auto
      qed
      with i True have "Suc i < length (t # ts) \<and> bm' = Some ((t # ts) ! Suc i)
          \<and> flag_matches cl ((t # ts) ! Suc i) = bs' \<and> bs < bs'
          \<and> (\<forall>j < Suc i. flag_matches cl ((t # ts) ! j) < bs')" by simp
      then show ?thesis by blast
    qed
    with le all True show ?thesis by auto
  next
    case False
    with Cons.prems have run: "match_loop cl ts (bm, bs) = (bm', bs')"
      by (simp add: Let_def)
    from Cons.IH [OF run] have le: "bs \<le> bs'"
      and all: "\<forall>u \<in> set ts. flag_matches cl u \<le> bs'"
      and alt: "(bm' = bm \<and> bs' = bs)
          \<or> (\<exists>i < length ts. bm' = Some (ts ! i) \<and> flag_matches cl (ts ! i) = bs' \<and> bs < bs'
                \<and> (\<forall>j < i. flag_matches cl (ts ! j) < bs'))"
      by blast+
    from False le have t: "flag_matches cl t \<le> bs'" by simp
    from alt have "(bm' = bm \<and> bs' = bs)
          \<or> (\<exists>i < length (t # ts). bm' = Some ((t # ts) ! i)
                \<and> flag_matches cl ((t # ts) ! i) = bs' \<and> bs < bs'
                \<and> (\<forall>j < i. flag_matches cl ((t # ts) ! j) < bs'))"
    proof
      assume "bm' = bm \<and> bs' = bs"
      then show ?thesis by blast
    next
      assume "\<exists>i < length ts. bm' = Some (ts ! i) \<and> flag_matches cl (ts ! i) = bs' \<and> bs < bs'
                \<and> (\<forall>j < i. flag_matches cl (ts ! j) < bs')"
      then obtain i where i: "i < length ts" "bm' = Some (ts ! i)"
        "flag_matches cl (ts ! i) = bs'" "bs < bs'"
        "\<forall>j < i. flag_matches cl (ts ! j) < bs'" by blast
      from False i(4) have tl: "flag_matches cl t < bs'" by simp
      have "\<forall>j < Suc i. flag_matches cl ((t # ts) ! j) < bs'"
      proof (intro allI impI)
        fix j assume "j < Suc i"
        then show "flag_matches cl ((t # ts) ! j) < bs'"
          using tl i(5) by (cases j) auto
      qed
      with i have "Suc i < length (t # ts) \<and> bm' = Some ((t # ts) ! Suc i)
          \<and> flag_matches cl ((t # ts) ! Suc i) = bs' \<and> bs < bs'
          \<and> (\<forall>j < Suc i. flag_matches cl ((t # ts) ! j) < bs')" by simp
      then show ?thesis by blast
    qed
    with le all t show ?thesis by auto
  qed
qed

text \<open>
  C4. Trajectory matching counts, for each trajectory of the library, the red-flag
  phrases that occur in the content, both lower-cased. It returns no match exactly when
  every trajectory has fewer than two such phrases; a best count of one gives no match.
  Otherwise it returns a trajectory with at least two phrases whose count no trajectory
  exceeds, and every trajectory registered before it has a strictly smaller count.
\<close>

theorem match_trajectory_best:
  "(match_trajectory trajectories content agg = None
      \<longleftrightarrow> (\<forall>t \<in> set trajectories. flag_matches (lower content) t < 2))
   \<and> (\<forall>t. match_trajectory trajectories content agg = Some t \<longrightarrow>
        (\<exists>i < length trajectories. trajectories ! i = t
           \<and> 2 \<le> flag_matches (lower content) t
           \<and> (\<forall>u \<in> set trajectories. flag_matches (lower content) u \<le> flag_matches (lower content) t)
           \<and> (\<forall>j < i. flag_matches (lower content) (trajectories ! j)
                        < flag_matches (lower content) t)))"
proof -
  let ?cl = "lower content"
  obtain bm bs where run: "match_loop ?cl trajectories (None, 0) = (bm, bs)"
    by (cases "match_loop ?cl trajectories (None, 0)") auto
  have res: "match_trajectory trajectories content agg = (if bs \<ge> 2 then bm else None)"
    by (simp add: match_trajectory_def run Let_def)
  from match_loop_invariant [OF run] have all: "\<forall>t \<in> set trajectories. flag_matches ?cl t \<le> bs"
    and alt: "(bm = None \<and> bs = 0)
          \<or> (\<exists>i < length trajectories. bm = Some (trajectories ! i)
                \<and> flag_matches ?cl (trajectories ! i) = bs \<and> 0 < bs
                \<and> (\<forall>j < i. flag_matches ?cl (trajectories ! j) < bs))"
    by blast+
  show ?thesis
  proof (cases "bs \<ge> 2")
    case True
    with alt obtain i where i: "i < length trajectories" "bm = Some (trajectories ! i)"
      "flag_matches ?cl (trajectories ! i) = bs"
      "\<forall>j < i. flag_matches ?cl (trajectories ! j) < bs" by auto
    from i(1) have mem: "trajectories ! i \<in> set trajectories" by simp
    have none: "\<not> (\<forall>t \<in> set trajectories. flag_matches ?cl t < 2)"
      using mem i(3) True by (metis not_le)
    have some: "\<exists>k < length trajectories. trajectories ! k = trajectories ! i
           \<and> 2 \<le> flag_matches ?cl (trajectories ! i)
           \<and> (\<forall>u \<in> set trajectories. flag_matches ?cl u \<le> flag_matches ?cl (trajectories ! i))
           \<and> (\<forall>j < k. flag_matches ?cl (trajectories ! j) < flag_matches ?cl (trajectories ! i))"
      using i True all by blast
    from res True i(2) none some show ?thesis by simp
  next
    case False
    with all have "\<forall>t \<in> set trajectories. flag_matches ?cl t < 2" by fastforce
    with res False show ?thesis by simp
  qed
qed

theorem match_trajectory_best_witness:
  "match_trajectory example_library ''The CBI has a WARRANT in your name'' (aggregate_results [])
     = Some (example_library ! 0)
   \<and> flag_matches (lower ''The CBI has a WARRANT in your name'') (example_library ! 0) = 2
   \<and> flag_matches (lower ''The CBI has a WARRANT in your name'') (example_library ! 2) = 2
   \<and> flag_matches (lower ''CBI calling'') (example_library ! 0) = 1
   \<and> match_trajectory example_library ''CBI calling'' (aggregate_results []) = None"
  (is "?A \<and> ?B \<and> ?C \<and> ?D \<and> ?E")
proof -
  have a: ?A by code_simp
  have b: ?B by code_simp
  have c: ?C by code_simp
  have d: ?D by code_simp
  have few: "\<forall>t \<in> set example_library. flag_matches (lower ''CBI calling'') t < 2"
    by code_simp
  with match_trajectory_best [of example_library "''CBI calling''" "aggregate_results []"]
  have e: ?E by blast
  from a b c d e show ?thesis by blast
qed

section \<open>Properties of the recommendations\<close>

text \<open>
  C8. For the tier CRITICAL the recommendation list has at least five entries. For a
  subject of 60 years or more it is the elder-specific literal followed by the list given
  to a younger subject, six entries in all; below 60 it has five entries, does not begin
  with the elder-specific literal and does not contain it.
\<close>

theorem critical_recommendations:
  "5 \<le> length (generate_recommendations ''CRITICAL'' score user_age)
   \<and> (60 \<le> user_age \<longrightarrow>
        generate_recommendations ''CRITICAL'' score user_age
          = elder_instruction # generate_recommendations ''CRITICAL'' score 59
        \<and> length (generate_recommendations ''CRITICAL'' score user_age) = 6)
   \<and> (user_age < 60 \<longrightarrow>
        length (generate_recommendations ''CRITICAL'' score user_age) = 5
        \<and> hd (generate_recommendations ''CRITICAL'' score user_age) \<noteq> elder_instruction
        \<and> elder_instruction \<notin> set (generate_recommendations ''CRITICAL'' score user_age))"
  by (simp add: generate_recommendations_def elder_instruction_def Let_def)

theorem critical_recommendations_witness:
  "(60::int) \<le> 68 \<and> (55::int) < 60
   \<and> hd (generate_recommendations ''CRITICAL'' 0.95 68) = elder_instruction
   \<and> length (generate_recommendations ''CRITICAL'' 0.95 68) = 6
   \<and> hd (generate_recommendations ''CRITICAL'' 0.95 55) \<noteq> elder_instruction
   \<and> length (generate_recommendations ''CRITICAL'' 0.95 55) = 5"
proof -
  have old: "(60::int) \<le> 68" and young: "(55::int) < 60" by simp_all
  from old critical_recommendations [of "0.95" 68]
  have eq: "generate_recommendations ''CRITICAL'' 0.95 68
      = elder_instruction # generate_recommendations ''CRITICAL'' 0.95 59"
    and l68: "length (generate_recommendations ''CRITICAL'' 0.95 68) = 6"
    by blast+
  from eq have h68: "hd (generate_recommendations ''CRITICAL'' 0.95 68) = elder_instruction"
    by (simp only: list.sel)
  from young critical_recommendations [of "0.95" 55]
  have "hd (generate_recommendations ''CRITICAL'' 0.95 55) \<noteq> elder_instruction"
    and "length (generate_recommendations ''CRITICAL'' 0.95 55) = 5"
    by blast+
  with old young h68 l68 show ?thesis by blast
qed

section \<open>Properties of the agent execution\<close>

lemma try_body_Inl_iff:
  "try_body self t = Inl x \<longleftrightarrow>
     plan_method self t = Inl x
     \<or> (\<exists>p. plan_method self t = Inr p
           \<and> (execute_plan self t p = Inl x
              \<or> (\<exists>r. execute_plan self t p = Inr r
                    \<and> (verify_method self t r = Inl x
                       \<or> (\<exists>v. verify_method self t r = Inr v
                             \<and> calculate_confidence_method self v = Inl x)))))"
  by (auto simp: try_body_def split: sum.splits)

lemma execute_never_Exception:
  "execute self history start_time end_time t \<noteq> Inl (Exception e)"
  by (auto simp: execute_def Let_def split: sum.splits raised.splits prod.splits)

lemma execute_Inr_cases:
  assumes "execute self history start_time end_time t = Inr (r, h)"
  shows "(\<exists>p v c. try_body self t = Inr (p, v, c) \<and> status r = COMPLETED
              \<and> result r = v \<and> confidence r = c)
       \<or> (\<exists>e. try_body self t = Inl (Exception e) \<and> status r = FAILED)"
  using assms
  by (auto simp: execute_def Let_def split: sum.splits raised.splits prod.splits)

lemma dict_set_map_of: "map_of (dict_set k v d) = (map_of d)(k \<mapsto> v)"
  by (induction d) auto

lemma use_tools_loop_entries:
  "use_tools_loop registry c names acc = Inr res
     \<Longrightarrow> map_of res n = (if n \<in> set names then tool_entry registry c n else map_of acc n)"
proof (induction names arbitrary: acc)
  case Nil
  then show ?case by simp
next
  case (Cons m names)
  show ?case
  proof (cases "ToolRegistry_execute registry m c")
    case (Inr v)
    with Cons.prems have run: "use_tools_loop registry c names (dict_set m v acc) = Inr res"
      by simp
    from Inr have entry: "tool_entry registry c m = Some v" by (simp add: tool_entry_def)
    from Cons.IH [OF run] entry show ?thesis by (auto simp: dict_set_map_of)
  next
    case (Inl x)
    show ?thesis
    proof (cases x)
      case (Exception e)
      with Inl Cons.prems
      have run: "use_tools_loop registry c names
          (dict_set m (PDict [(''error'', PText e)]) acc) = Inr res"
        by simp
      from Inl Exception have entry: "tool_entry registry c m = Some (PDict [(''error'', PText e)])"
        by (simp add: tool_entry_def)
      from Cons.IH [OF run] entry show ?thesis by (auto simp: dict_set_map_of)
    next
      case (BaseException b)
      with Inl Cons.prems show ?thesis by simp
    qed
  qed
qed

lemma use_tools_loop_no_Exception:
  "use_tools_loop registry c names acc \<noteq> Inl (Exception e)"
  by (induction names arbitrary: acc) (auto split: sum.splits raised.splits)

lemma BaseAgent_delegate_no_Exception: "BaseAgent_delegate d t target \<noteq> Inl (Exception e)"
  using execute_never_Exception
  by (auto simp: BaseAgent_delegate_def split: option.splits sum.splits prod.splits)

lemma BaseAgent_generate_response_no_Exception:
  "BaseAgent_generate_response d t \<noteq> Inl (Exception e)"
  by (auto simp: BaseAgent_generate_response_def split: option.splits sum.splits raised.splits)

lemma BaseAgent_plan_returns: "\<exists>p. BaseAgent_plan registry d t = Inr p"
  by (auto simp: BaseAgent_plan_def Let_def split: option.splits)

lemma BaseAgent_execute_plan_no_Exception:
  "execute_plan (BaseAgent registry d) t p \<noteq> Inl (Exception e)"
  using BaseAgent_delegate_no_Exception [of d t _ e]
    BaseAgent_generate_response_no_Exception [of d t e]
    use_tools_loop_no_Exception [of registry "task_content t" _ "[]" e]
  by (auto simp: execute_plan_def BaseAgent_def BaseAgent_use_tools_def split: option.splits)

lemma BaseAgent_try_body_no_Exception:
  "try_body (BaseAgent registry d) t \<noteq> Inl (Exception e)"
proof
  assume "try_body (BaseAgent registry d) t = Inl (Exception e)"
  then have "plan_method (BaseAgent registry d) t = Inl (Exception e)
     \<or> (\<exists>p. plan_method (BaseAgent registry d) t = Inr p
           \<and> (execute_plan (BaseAgent registry d) t p = Inl (Exception e)
              \<or> (\<exists>r. execute_plan (BaseAgent registry d) t p = Inr r
                    \<and> (verify_method (BaseAgent registry d) t r = Inl (Exception e)
                       \<or> (\<exists>v. verify_method (BaseAgent registry d) t r = Inr v
                             \<and> calculate_confidence_method (BaseAgent registry d) v
                                 = Inl (Exception e))))))"
    by (simp only: try_body_Inl_iff)
  moreover have "plan_method (BaseAgent registry d) t \<noteq> Inl (Exception e)"
    using BaseAgent_plan_returns [of registry d t] by (auto simp: BaseAgent_def)
  moreover have "\<And>r. verify_method (BaseAgent registry d) t r \<noteq> Inl (Exception e)"
    by (simp add: BaseAgent_def BaseAgent_verify_def)
  moreover have "\<And>v. calculate_confidence_method (BaseAgent registry d) v \<noteq> Inl (Exception e)"
    by (simp add: BaseAgent_def BaseAgent_calculate_confidence_def)
  ultimately show False using BaseAgent_execute_plan_no_Exception [of registry d t _ e] by blast
qed

lemma BaseAgent_confidence:
  assumes "try_body (BaseAgent registry d) t = Inr (p, v, c)"
  shows "c = (if has_key ''error'' v then 0 else 0.8)"
  using assms
  by (auto simp: try_body_def BaseAgent_def BaseAgent_verify_def BaseAgent_calculate_confidence_def
      split: sum.splits)

text \<open>
  C7 (as amended). An \<^verbatim>\<open>Exception\<close> \<open>e\<close> that leaves a step of \<^verbatim>\<open>execute\<close> (the plan, the
  chosen path, the verification or the confidence computation) is converted into a
  returned result that is FAILED, with confidence 0, the payload \<^verbatim>\<open>{"error": e}\<close> and the
  reasoning "Execution failed: " followed by the text of \<open>e\<close>; the history is unchanged,
  and \<^verbatim>\<open>execute\<close> never raises an \<^verbatim>\<open>Exception\<close> itself. A failure that a step of
  \<^verbatim>\<open>BaseAgent\<close> handles on its own is not converted: with the methods of \<^verbatim>\<open>BaseAgent\<close> every
  returned result is COMPLETED, with confidence 0 when the payload has the key
  \<^verbatim>\<open>error\<close> and 0.8 otherwise. There a tool that raises leaves \<^verbatim>\<open>{"error": e}\<close> under its
  own name beside the values of the other tools, a failing generation service gives the
  payload \<^verbatim>\<open>{"error": e}\<close>, and so does a delegate that is not registered.
\<close>

theorem execute_failure_conversion:
  "((plan_method self t = Inl (Exception e)
     \<or> (\<exists>p. plan_method self t = Inr p
           \<and> (execute_plan self t p = Inl (Exception e)
              \<or> (\<exists>r. execute_plan self t p = Inr r
                    \<and> (verify_method self t r = Inl (Exception e)
                       \<or> (\<exists>v. verify_method self t r = Inr v
                             \<and> calculate_confidence_method self v = Inl (Exception e)))))))
     \<longrightarrow> execute self history start_time end_time t
          = Inr (\<lparr>tr_task_id = task_id t, tr_agent_id = agent_id self, status = FAILED,
                   result = [(''error'', PText e)], confidence = 0,
                   tr_reasoning = ''Execution failed: '' @ e,
                   execution_time = end_time - start_time\<rparr>, history))
   \<and> (\<forall>e'. execute self history start_time end_time t \<noteq> Inl (Exception e'))
   \<and> (\<forall>r h. execute (BaseAgent registry d) history start_time end_time t = Inr (r, h)
          \<longrightarrow> status r = COMPLETED
              \<and> confidence r = (if has_key ''error'' (result r) then 0 else 0.8))
   \<and> (\<forall>res. BaseAgent_use_tools registry t names = Inr res \<longrightarrow>
          (\<forall>n \<in> set names.
             (\<forall>e'. ToolRegistry_execute registry n (task_content t) = Inl (Exception e')
                    \<longrightarrow> map_of res n = Some (PDict [(''error'', PText e')]))
           \<and> (\<forall>v. ToolRegistry_execute registry n (task_content t) = Inr v
                    \<longrightarrow> map_of res n = Some v)))
   \<and> (\<forall>generate_content e'.
          ad_client d = Some generate_content
          \<and> generate_content (task_content t) = Inl (Exception e')
          \<longrightarrow> BaseAgent_generate_response d t = Inr [(''error'', PText e')])
   \<and> (map_of (ad_sub_agents d) target = None
        \<longrightarrow> BaseAgent_delegate d t target
            = Inr [(''error'', PText (''Agent '' @ target @ '' not found''))])"
proof -
  have p1: "(plan_method self t = Inl (Exception e)
     \<or> (\<exists>p. plan_method self t = Inr p
           \<and> (execute_plan self t p = Inl (Exception e)
              \<or> (\<exists>r. execute_plan self t p = Inr r
                    \<and> (verify_method self t r = Inl (Exception e)
                       \<or> (\<exists>v. verify_method self t r = Inr v
                             \<and> calculate_confidence_method self v = Inl (Exception e)))))))
     \<longrightarrow> execute self history start_time end_time t
          = Inr (\<lparr>tr_task_id = task_id t, tr_agent_id = agent_id self, status = FAILED,
                   result = [(''error'', PText e)], confidence = 0,
                   tr_reasoning = ''Execution failed: '' @ e,
                   execution_time = end_time - start_time\<rparr>, history)"
  proof
    assume "plan_method self t = Inl (Exception e)
     \<or> (\<exists>p. plan_method self t = Inr p
           \<and> (execute_plan self t p = Inl (Exception e)
              \<or> (\<exists>r. execute_plan self t p = Inr r
                    \<and> (verify_method self t r = Inl (Exception e)
                       \<or> (\<exists>v. verify_method self t r = Inr v
                             \<and> calculate_confidence_method self v = Inl (Exception e))))))"
    then have "try_body self t = Inl (Exception e)" by (simp only: try_body_Inl_iff)
    then show "execute self history start_time end_time t
          = Inr (\<lparr>tr_task_id = task_id t, tr_agent_id = agent_id self, status = FAILED,
                   result = [(''error'', PText e)], confidence = 0,
                   tr_reasoning = ''Execution failed: '' @ e,
                   execution_time = end_time - start_time\<rparr>, history)"
      by (simp add: execute_def)
  qed
  have p2: "\<forall>e'. execute self history start_time end_time t \<noteq> Inl (Exception e')"
    by (simp add: execute_never_Exception)
  have p3: "\<forall>r h. execute (BaseAgent registry d) history start_time end_time t = Inr (r, h)
          \<longrightarrow> status r = COMPLETED
              \<and> confidence r = (if has_key ''error'' (result r) then 0 else 0.8)"
  proof (intro allI impI)
    fix r h
    assume run: "execute (BaseAgent registry d) history start_time end_time t = Inr (r, h)"
    from execute_Inr_cases [OF run] BaseAgent_try_body_no_Exception [of registry d t]
    obtain p v c where body: "try_body (BaseAgent registry d) t = Inr (p, v, c)"
      and r: "status r = COMPLETED" "result r = v" "confidence r = c" by blast
    from BaseAgent_confidence [OF body] r
    have "confidence r = (if has_key ''error'' (result r) then 0 else 0.8)" by simp
    with r(1) show "status r = COMPLETED
        \<and> confidence r = (if has_key ''error'' (result r) then 0 else 0.8)" by simp
  qed
  have p4: "\<forall>res. BaseAgent_use_tools registry t names = Inr res \<longrightarrow>
          (\<forall>n \<in> set names.
             (\<forall>e'. ToolRegistry_execute registry n (task_content t) = Inl (Exception e')
                    \<longrightarrow> map_of res n = Some (PDict [(''error'', PText e')]))
           \<and> (\<forall>v. ToolRegistry_execute registry n (task_content t) = Inr v
                    \<longrightarrow> map_of res n = Some v))"
  proof (intro allI impI ballI conjI)
    fix res n e'
    assume "BaseAgent_use_tools registry t names = Inr res" "n \<in> set names"
      "ToolRegistry_execute registry n (task_content t) = Inl (Exception e')"
    then show "map_of res n = Some (PDict [(''error'', PText e')])"
      using use_tools_loop_entries [of registry "task_content t" names "[]" res n]
      by (simp add: BaseAgent_use_tools_def tool_entry_def)
  next
    fix res n v
    assume "BaseAgent_use_tools registry t names = Inr res" "n \<in> set names"
      "ToolRegistry_execute registry n (task_content t) = Inr v"
    then show "map_of res n = Some v"
      using use_tools_loop_entries [of registry "task_content t" names "[]" res n]
      by (simp add: BaseAgent_use_tools_def tool_entry_def)
  qed
  have p5: "\<forall>generate_content e'.
          ad_client d = Some generate_content
          \<and> generate_content (task_content t) = Inl (Exception e')
          \<longrightarrow> BaseAgent_generate_response d t = Inr [(''error'', PText e')]"
    by (simp add: BaseAgent_generate_response_def)
  have p6: "map_of (ad_sub_agents d) target = None
        \<longrightarrow> BaseAgent_delegate d t target
            = Inr [(''error'', PText (''Agent '' @ target @ '' not found''))]"
    by (simp add: BaseAgent_delegate_def)
  show ?thesis
    by (intro conjI) (rule p1, rule p2, rule p3, rule p4, rule p5, rule p6)
qed

theorem execute_failure_conversion_witness:
  "generate_response_method example_agent example_task = Inl (Exception ''empty content'')
   \<and> execute example_agent [] 10 12 example_task
      = Inr (\<lparr>tr_task_id = ''t1'', tr_agent_id = ''example_agent'', status = FAILED,
               result = [(''error'', PText ''empty content'')], confidence = 0,
               tr_reasoning = ''Execution failed: empty content'',
               execution_time = 2\<rparr>, [])
   \<and> ToolRegistry_execute example_registry ''upi_pattern_matcher'' (task_content example_task)
      = Inl (Exception ''pattern database unavailable'')
   \<and> BaseAgent_use_tools example_registry example_task [''upi_pattern_matcher'', ''risk_calculator'']
      = Inr [(''upi_pattern_matcher'', PDict [(''error'', PText ''pattern database unavailable'')]),
             (''risk_calculator'', PNum 0.5)]
   \<and> execute_plan example_agent example_task
        \<lparr>delegate_to = Some ''ghost'', use_tools = Some [''risk_calculator''], reasoning = None\<rparr>
      = Inr [(''error'', PText ''Agent ghost not found'')]
   \<and> execute_plan example_agent example_task
        \<lparr>delegate_to = Some [], use_tools = Some [''risk_calculator''], reasoning = None\<rparr>
      = Inr [(''risk_calculator'', PNum 0.5)]
   \<and> execute (BaseAgent example_registry example_parent) [] 10 12 example_task
      = Inr (\<lparr>tr_task_id = ''t1'', tr_agent_id = ''parent_agent'', status = COMPLETED,
               result = [(''error'', PText ''service unavailable'')], confidence = 0,
               tr_reasoning = ''Delegating to Helper for specialized handling'',
               execution_time = 2\<rparr>,
             [\<lparr>tr_task_id = ''t1'', tr_agent_id = ''parent_agent'', status = COMPLETED,
               result = [(''error'', PText ''service unavailable'')], confidence = 0,
               tr_reasoning = ''Delegating to Helper for specialized handling'',
               execution_time = 2\<rparr>])
   \<and> execute (example_agent\<lparr>generate_response_method :=
                                (\<lambda>t. Inl (BaseException ''KeyboardInterrupt''))\<rparr>)
        [] 10 12 example_task
      = Inl (BaseException ''KeyboardInterrupt'')"
  (is "?A \<and> ?B \<and> ?C \<and> ?D \<and> ?E \<and> ?F \<and> ?G \<and> ?H")
proof -
  let ?p = "\<lparr>delegate_to = None, use_tools = None,
             reasoning = Some ''Generating direct response''\<rparr>"
  have a: ?A by (simp add: example_agent_def)
  have p: "plan_method example_agent example_task = Inr ?p"
    by (simp add: example_agent_def BaseAgent_def BaseAgent_plan_def example_data_def)
  have x: "execute_plan example_agent example_task ?p = Inl (Exception ''empty content'')"
    by (simp add: execute_plan_def example_agent_def)
  from p x have "plan_method example_agent example_task = Inl (Exception ''empty content'')
     \<or> (\<exists>p. plan_method example_agent example_task = Inr p
           \<and> (execute_plan example_agent example_task p = Inl (Exception ''empty content'')
              \<or> (\<exists>r. execute_plan example_agent example_task p = Inr r
                    \<and> (verify_method example_agent example_task r = Inl (Exception ''empty content'')
                       \<or> (\<exists>v. verify_method example_agent example_task r = Inr v
                             \<and> calculate_confidence_method example_agent v
                                 = Inl (Exception ''empty content''))))))"
    by blast
  with execute_failure_conversion [of example_agent example_task "''empty content''" "[]" 10 12]
  have "execute example_agent [] 10 12 example_task
          = Inr (\<lparr>tr_task_id = task_id example_task, tr_agent_id = agent_id example_agent,
                   status = FAILED, result = [(''error'', PText ''empty content'')],
                   confidence = 0, tr_reasoning = ''Execution failed: '' @ ''empty content'',
                   execution_time = 12 - 10\<rparr>, [])"
    by blast
  then have b: ?B
    by (simp add: example_agent_def example_task_def BaseAgent_def example_data_def)
  have c: ?C by (simp add: ToolRegistry_execute_def example_registry_def)
  have d: ?D
    by (simp add: BaseAgent_use_tools_def ToolRegistry_execute_def example_registry_def
        example_task_def)
  have "map_of (ad_sub_agents (example_data\<lparr>ad_tools := []\<rparr>)) ''ghost'' = None"
    by (simp add: example_data_def)
  with execute_failure_conversion [where d = "example_data\<lparr>ad_tools := []\<rparr>"
      and t = example_task and target = "''ghost''"]
  have "BaseAgent_delegate (example_data\<lparr>ad_tools := []\<rparr>) example_task ''ghost''
      = Inr [(''error'', PText (''Agent '' @ ''ghost'' @ '' not found''))]"
    by blast
  then have e: ?E
    by (simp add: execute_plan_def example_agent_def BaseAgent_def)
  have f: ?F
    by (simp add: execute_plan_def example_agent_def BaseAgent_def BaseAgent_use_tools_def
        ToolRegistry_execute_def example_registry_def example_task_def)
  have g: ?G
    by (simp add: execute_def try_body_def execute_plan_def BaseAgent_def BaseAgent_plan_def
        BaseAgent_delegate_def BaseAgent_generate_response_def BaseAgent_verify_def
        BaseAgent_calculate_confidence_def has_key_def example_parent_def example_data_def
        example_service_down_def example_task_def Let_def)
  have h: ?H
    by (simp add: execute_def try_body_def execute_plan_def example_agent_def BaseAgent_def
        BaseAgent_plan_def example_data_def Let_def)
  from a b c d e f g h show ?thesis by blast
qed

text \<open>
  Not every failure ends in a FAILED result. The first tool of the example agent raises;
  \<^verbatim>\<open>_use_tools\<close> records it and \<^verbatim>\<open>execute\<close> returns COMPLETED with confidence 0.8 and the
  reasoning of the plan. With the generation service failing the result is COMPLETED
  with confidence 0; the reasoning is not the error text.
\<close>

theorem failure_completed_counterexample:
  "ToolRegistry_execute example_registry ''upi_pattern_matcher'' (task_content example_task)
      = Inl (Exception ''pattern database unavailable'')
   \<and> execute (BaseAgent example_registry example_data) [] 10 12 example_task
      = Inr (\<lparr>tr_task_id = ''t1'', tr_agent_id = ''example_agent'', status = COMPLETED,
               result = [(''upi_pattern_matcher'',
                            PDict [(''error'', PText ''pattern database unavailable'')]),
                         (''risk_calculator'', PNum 0.5)],
               confidence = 0.8,
               tr_reasoning = ''Using tools: upi_pattern_matcher, risk_calculator'',
               execution_time = 2\<rparr>,
             [\<lparr>tr_task_id = ''t1'', tr_agent_id = ''example_agent'', status = COMPLETED,
               result = [(''upi_pattern_matcher'',
                            PDict [(''error'', PText ''pattern database unavailable'')]),
                         (''risk_calculator'', PNum 0.5)],
               confidence = 0.8,
               tr_reasoning = ''Using tools: upi_pattern_matcher, risk_calculator'',
               execution_time = 2\<rparr>])
   \<and> execute (BaseAgent example_registry example_service_down) [] 10 12 example_task
      = Inr (\<lparr>tr_task_id = ''t1'', tr_agent_id = ''example_agent'', status = COMPLETED,
               result = [(''error'', PText ''service unavailable'')], confidence = 0,
               tr_reasoning = ''Generating direct response'', execution_time = 2\<rparr>,
             [\<lparr>tr_task_id = ''t1'', tr_agent_id = ''example_agent'', status = COMPLETED,
               result = [(''error'', PText ''service unavailable'')], confidence = 0,
               tr_reasoning = ''Generating direct response'', execution_time = 2\<rparr>])"
  by (simp add: execute_def try_body_def execute_plan_def BaseAgent_def BaseAgent_plan_def
      BaseAgent_use_tools_def BaseAgent_generate_response_def BaseAgent_verify_def
      BaseAgent_calculate_confidence_def ToolRegistry_execute_def ToolRegistry_get_def
      has_key_def example_registry_def example_data_def example_service_down_def
      example_task_def Let_def)

section \<open>Properties of the analysis\<close>

text \<open>
  C9. The counters of the orchestrator do not enter the verdict: two orchestrator states
  with the same trajectory library return, for the same content and age, the same risk
  score, threat tier, trajectory match, primary threat, findings, recommendations and
  emergency flag, whatever their counters and the clock. A call leaves the library
  unchanged and increases the counter of analyses by one, so a second call on the state
  left by the first returns the same verdict.
\<close>

theorem analyze_idempotent:
  "orc_trajectories (snd (analyze self now content user_age)) = orc_trajectories self
   \<and> total_analyses (snd (analyze self now content user_age)) = total_analyses self + 1
   \<and> (orc_trajectories other = orc_trajectories self \<longrightarrow>
        pr_risk_score (fst (analyze other later content user_age))
          = pr_risk_score (fst (analyze self now content user_age))
        \<and> pr_threat_level (fst (analyze other later content user_age))
          = pr_threat_level (fst (analyze self now content user_age))
        \<and> matched_trajectory (fst (analyze other later content user_age))
          = matched_trajectory (fst (analyze self now content user_age))
        \<and> pr_primary_threat (fst (analyze other later content user_age))
          = pr_primary_threat (fst (analyze self now content user_age))
        \<and> agent_findings (fst (analyze other later content user_age))
          = agent_findings (fst (analyze self now content user_age))
        \<and> recommendations (fst (analyze other later content user_age))
          = recommendations (fst (analyze self now content user_age))
        \<and> emergency_action (fst (analyze other later content user_age))
          = emergency_action (fst (analyze self now content user_age)))"
  by (simp add: analyze_def Let_def)

theorem analyze_idempotent_witness:
  "pr_threat_level (fst (analyze example_orchestrator ''2024-01-01T10:00:00''
        ''The CBI has a WARRANT in your name, pay the fine'' 68)) = ''CRITICAL''
   \<and> total_analyses (snd (analyze example_orchestrator ''2024-01-01T10:00:00''
        ''The CBI has a WARRANT in your name, pay the fine'' 68)) = 1
   \<and> pr_threat_level (fst (analyze
        (snd (analyze example_orchestrator ''2024-01-01T10:00:00''
           ''The CBI has a WARRANT in your name, pay the fine'' 68))
        ''2024-01-01T10:00:05'' ''The CBI has a WARRANT in your name, pay the fine'' 68))
      = ''CRITICAL''
   \<and> matched_trajectory (fst (analyze
        (snd (analyze example_orchestrator ''2024-01-01T10:00:00''
           ''The CBI has a WARRANT in your name, pay the fine'' 68))
        ''2024-01-01T10:00:05'' ''The CBI has a WARRANT in your name, pay the fine'' 68))
      = matched_trajectory (fst (analyze example_orchestrator ''2024-01-01T10:00:00''
        ''The CBI has a WARRANT in your name, pay the fine'' 68))"
  (is "?A \<and> ?B \<and> ?C \<and> ?D")
proof -
  let ?c = "''The CBI has a WARRANT in your name, pay the fine''"
  let ?first = "analyze example_orchestrator ''2024-01-01T10:00:00'' ?c 68"
  note inst = analyze_idempotent [of example_orchestrator "''2024-01-01T10:00:00''" ?c 68
      "snd ?first" "''2024-01-01T10:00:05''"]
  have a: ?A by code_simp
  from inst have b0: "total_analyses (snd ?first) = total_analyses example_orchestrator + 1"
    by blast
  then have b: ?B by (simp add: example_orchestrator_def)
  from inst have same: "orc_trajectories (snd ?first) = orc_trajectories example_orchestrator"
    by blast
  with inst have "pr_threat_level (fst (analyze (snd ?first) ''2024-01-01T10:00:05'' ?c 68))
      = pr_threat_level (fst ?first)"
    and d: ?D by blast+
  with a have c: ?C by (simp only:)
  from a b c d show ?thesis by blast
qed

text \<open>
  C10. The result of \<^verbatim>\<open>analyze\<close> has the emergency flag set exactly when its threat tier
  is CRITICAL.
\<close>

theorem emergency_iff_critical:
  "emergency_action (fst (analyze self now content user_age))
     = (pr_threat_level (fst (analyze self now content user_age)) = ''CRITICAL'')"
  by (simp add: analyze_def Let_def)

theorem emergency_iff_critical_witness:
  "pr_threat_level (fst (analyze example_orchestrator ''2024-01-01T10:00:00''
        ''You have WON a lottery, accept the collect request now'' 55)) = ''CRITICAL''
   \<and> emergency_action (fst (analyze example_orchestrator ''2024-01-01T10:00:00''
        ''You have WON a lottery, accept the collect request now'' 55))
   \<and> pr_threat_level (fst (analyze example_orchestrator ''2024-01-01T10:00:00''
        ''See you at lunch'' 55)) = ''SAFE''
   \<and> \<not> emergency_action (fst (analyze example_orchestrator ''2024-01-01T10:00:00''
        ''See you at lunch'' 55))"
  (is "?A \<and> ?B \<and> ?C \<and> ?D")
proof -
  have a: ?A by code_simp
  have c: ?C by code_simp
  from a emergency_iff_critical [of example_orchestrator "''2024-01-01T10:00:00''"
      "''You have WON a lottery, accept the collect request now''" 55]
  have b: ?B by (simp only: simp_thms)
  from c emergency_iff_critical [of example_orchestrator "''2024-01-01T10:00:00''"
      "''See you at lunch''" 55]
  have d: ?D by simp
  from a b c d show ?thesis by blast
qed

section \<open>Properties of the two-tier pattern scores\<close>

lemma fold_max_Max:
  "fold (\<lambda>r acc. max acc r) xs (m::real) = Max (insert m (set xs))"
proof (induction xs arbitrary: m)
  case Nil
  then show ?case by simp
next
  case (Cons x xs)
  have "Max (insert (max m x) (set xs)) = Max (insert m (insert x (set xs)))"
  proof (cases "xs = []")
    case True
    then show ?thesis by simp
  next
    case False
    then have ne: "set xs \<noteq> {}" by simp
    then show ?thesis by (simp add: Max_insert max.assoc)
  qed
  with Cons show ?case by simp
qed

lemma UPIScamDetector_fold:
  "fold (UPIScamDetector_step s) ps (d, m, ev)
     = (d @ map (\<lambda>p. \<lparr>dp_name = pat_name p, dp_risk = clamped_score 0.5 0.25 s p\<rparr>)
               (filter (two_tier_match s) ps),
        fold (\<lambda>r acc. max acc r) (map (clamped_score 0.5 0.25 s) (filter (two_tier_match s) ps)) m,
        ev @ map (\<lambda>p. ''Matched pattern: '' @ pat_name p) (filter (two_tier_match s) ps))"
  by (induction ps arbitrary: d m ev)
     (simp_all add: UPIScamDetector_step_def two_tier_match_def clamped_score_def Let_def
        min.commute)

lemma UPIFraudAgent_fold:
  "fold (UPIFraudAgent_step s) ps (d, m, flags)
     = (d @ map (\<lambda>p. \<lparr>dp_name = pat_name p, dp_risk = clamped_score 0.7 0.15 s p\<rparr>)
               (filter (two_tier_match s) ps),
        fold (\<lambda>r acc. max acc r) (map (clamped_score 0.7 0.15 s) (filter (two_tier_match s) ps)) m,
        flags @ concat (map (\<lambda>p. hits (pat_keywords p) s @ hits (pat_indicators p) s)
                            (filter (two_tier_match s) ps)))"
  by (induction ps arbitrary: d m flags)
     (simp_all add: UPIFraudAgent_step_def two_tier_match_def clamped_score_def Let_def
        min.commute)

lemma clamped_score_nonneg:
  "0 \<le> pat_risk p \<Longrightarrow> 0 \<le> offset \<Longrightarrow> 0 \<le> weight \<Longrightarrow> 0 \<le> clamped_score offset weight s p"
  by (simp add: clamped_score_def)

lemma Max_insert_zero:
  assumes "finite S" "S \<noteq> {}" "\<forall>x \<in> S. (0::real) \<le> x"
  shows "Max (insert 0 S) = Max S"
proof -
  from assms have "0 \<le> Max S" by (meson Max_in)
  with assms show ?thesis by (simp add: Max_insert max_def)
qed

lemma scan_summary:
  assumes "\<forall>p \<in> set ps. 0 \<le> pat_risk p" "0 \<le> offset" "0 \<le> weight"
  shows "fold (\<lambda>r acc. max acc r) (map (clamped_score offset weight s) (filter (two_tier_match s) ps)) 0
       = Max (insert 0 (set (map (clamped_score offset weight s) (filter (two_tier_match s) ps))))
     \<and> (filter (two_tier_match s) ps \<noteq> [] \<longrightarrow>
          fold (\<lambda>r acc. max acc r) (map (clamped_score offset weight s) (filter (two_tier_match s) ps)) 0
          = Max (set (map (clamped_score offset weight s) (filter (two_tier_match s) ps))))"
proof -
  let ?S = "set (map (clamped_score offset weight s) (filter (two_tier_match s) ps))"
  have a: "fold (\<lambda>r acc. max acc r) (map (clamped_score offset weight s) (filter (two_tier_match s) ps)) 0
       = Max (insert 0 ?S)" by (rule fold_max_Max)
  have nn: "\<forall>x \<in> ?S. 0 \<le> x" using assms by (auto intro: clamped_score_nonneg)
  have "filter (two_tier_match s) ps \<noteq> [] \<longrightarrow> Max (insert 0 ?S) = Max ?S"
  proof
    assume "filter (two_tier_match s) ps \<noteq> []"
    then have "?S \<noteq> {}" by (auto simp: filter_empty_conv)
    with nn show "Max (insert 0 ?S) = Max ?S" by (intro Max_insert_zero) auto
  qed
  with a show ?thesis by simp
qed

text \<open>
  C2 (as amended). In \<^verbatim>\<open>UPIScamDetector.analyze\<close> the detected patterns are the patterns
  of the table with at least one keyword hit and one indicator hit, in table order, each
  with the score \<open>min(1, base_weight \<times> (0.5 + 0.25 \<times> keyword_hits + 0.25 \<times> indicator_hits))\<close>:
  the cap is on the product, not on the multiplier. The risk before the amplifiers is the
  maximum of 0 and these scores, so the maximum of the scores when a pattern matched.
  \<^verbatim>\<open>UPIFraudAgent.analyze\<close> does the same with the multiplier
  \<open>0.7 + 0.15 \<times> keyword_hits + 0.15 \<times> indicator_hits\<close>.
\<close>

theorem two_tier_scores_and_max:
  "fst (UPIScamDetector_scan s)
     = map (\<lambda>p. \<lparr>dp_name = pat_name p, dp_risk = clamped_score 0.5 0.25 s p\<rparr>)
           (filter (two_tier_match s) SCAM_PATTERNS)
   \<and> fst (snd (UPIScamDetector_scan s))
     = Max (insert 0 (set (map dp_risk (fst (UPIScamDetector_scan s)))))
   \<and> (fst (UPIScamDetector_scan s) \<noteq> [] \<longrightarrow>
        fst (snd (UPIScamDetector_scan s)) = Max (set (map dp_risk (fst (UPIScamDetector_scan s)))))
   \<and> fst (UPIFraudAgent_scan s)
     = map (\<lambda>p. \<lparr>dp_name = pat_name p, dp_risk = clamped_score 0.7 0.15 s p\<rparr>)
           (filter (two_tier_match s) UPIFraudAgent_patterns)
   \<and> fst (snd (UPIFraudAgent_scan s))
     = Max (insert 0 (set (map dp_risk (fst (UPIFraudAgent_scan s)))))
   \<and> (fst (UPIFraudAgent_scan s) \<noteq> [] \<longrightarrow>
        fst (snd (UPIFraudAgent_scan s)) = Max (set (map dp_risk (fst (UPIFraudAgent_scan s)))))"
proof -
  have pos1: "\<forall>p \<in> set SCAM_PATTERNS. 0 \<le> pat_risk p" by (simp add: SCAM_PATTERNS_def)
  have pos2: "\<forall>p \<in> set UPIFraudAgent_patterns. 0 \<le> pat_risk p"
    by (simp add: UPIFraudAgent_patterns_def)
  let ?m1 = "filter (two_tier_match s) SCAM_PATTERNS"
  let ?m2 = "filter (two_tier_match s) UPIFraudAgent_patterns"
  have d1: "fst (UPIScamDetector_scan s)
     = map (\<lambda>p. \<lparr>dp_name = pat_name p, dp_risk = clamped_score 0.5 0.25 s p\<rparr>) ?m1"
    by (simp add: UPIScamDetector_scan_def UPIScamDetector_fold)
  have r1: "fst (snd (UPIScamDetector_scan s))
     = fold (\<lambda>r acc. max acc r) (map (clamped_score 0.5 0.25 s) ?m1) 0"
    by (simp add: UPIScamDetector_scan_def UPIScamDetector_fold)
  have s1: "map dp_risk (fst (UPIScamDetector_scan s)) = map (clamped_score 0.5 0.25 s) ?m1"
    by (simp add: d1 comp_def)
  have e1: "fst (UPIScamDetector_scan s) \<noteq> [] \<longleftrightarrow> ?m1 \<noteq> []" by (simp add: d1)
  have d2: "fst (UPIFraudAgent_scan s)
     = map (\<lambda>p. \<lparr>dp_name = pat_name p, dp_risk = clamped_score 0.7 0.15 s p\<rparr>) ?m2"
    by (simp add: UPIFraudAgent_scan_def UPIFraudAgent_fold)
  have r2: "fst (snd (UPIFraudAgent_scan s))
     = fold (\<lambda>r acc. max acc r) (map (clamped_score 0.7 0.15 s) ?m2) 0"
    by (simp add: UPIFraudAgent_scan_def UPIFraudAgent_fold)
  have s2: "map dp_risk (fst (UPIFraudAgent_scan s)) = map (clamped_score 0.7 0.15 s) ?m2"
    by (simp add: d2 comp_def)
  have e2: "fst (UPIFraudAgent_scan s) \<noteq> [] \<longleftrightarrow> ?m2 \<noteq> []" by (simp add: d2)
  have w1: "(0::real) \<le> 0.5" "(0::real) \<le> 0.25" by simp_all
  from scan_summary [OF pos1 w1, of s]
  have a1: "fold (\<lambda>r acc. max acc r) (map (clamped_score 0.5 0.25 s) ?m1) 0
       = Max (insert 0 (set (map (clamped_score 0.5 0.25 s) ?m1)))"
    and b1: "?m1 \<noteq> [] \<longrightarrow> fold (\<lambda>r acc. max acc r) (map (clamped_score 0.5 0.25 s) ?m1) 0
       = Max (set (map (clamped_score 0.5 0.25 s) ?m1))"
    by blast+
  from a1 have m1: "fst (snd (UPIScamDetector_scan s))
       = Max (insert 0 (set (map dp_risk (fst (UPIScamDetector_scan s)))))"
    by (simp only: r1 s1)
  from b1 have n1: "fst (UPIScamDetector_scan s) \<noteq> [] \<longrightarrow>
        fst (snd (UPIScamDetector_scan s)) = Max (set (map dp_risk (fst (UPIScamDetector_scan s))))"
    by (simp only: r1 s1 e1)
  have w2: "(0::real) \<le> 0.7" "(0::real) \<le> 0.15" by simp_all
  from scan_summary [OF pos2 w2, of s]
  have a2: "fold (\<lambda>r acc. max acc r) (map (clamped_score 0.7 0.15 s) ?m2) 0
       = Max (insert 0 (set (map (clamped_score 0.7 0.15 s) ?m2)))"
    and b2: "?m2 \<noteq> [] \<longrightarrow> fold (\<lambda>r acc. max acc r) (map (clamped_score 0.7 0.15 s) ?m2) 0
       = Max (set (map (clamped_score 0.7 0.15 s) ?m2))"
    by blast+
  from a2 have m2: "fst (snd (UPIFraudAgent_scan s))
       = Max (insert 0 (set (map dp_risk (fst (UPIFraudAgent_scan s)))))"
    by (simp only: r2 s2)
  from b2 have n2: "fst (UPIFraudAgent_scan s) \<noteq> [] \<longrightarrow>
        fst (snd (UPIFraudAgent_scan s)) = Max (set (map dp_risk (fst (UPIFraudAgent_scan s))))"
    by (simp only: r2 s2 e2)
  from d1 m1 n1 d2 m2 n2 show ?thesis by blast
qed

theorem two_tier_scores_and_max_witness:
  "fst (UPIScamDetector_scan (lower ''Collect request: you WON''))
     = [\<lparr>dp_name = ''collect_request_scam'', dp_risk = 1\<rparr>]
   \<and> clamped_score 0.5 0.25 (lower ''Collect request: you WON'') (SCAM_PATTERNS ! 0) = 1
   \<and> fst (snd (UPIScamDetector_scan (lower ''Collect request: you WON''))) = 1
   \<and> fst (UPIFraudAgent_scan (lower ''Seller: scan the QR code to get money''))
     = [\<lparr>dp_name = ''qr_fraud'', dp_risk = 1\<rparr>,
        \<lparr>dp_name = ''marketplace'', dp_risk = 0.88\<rparr>]
   \<and> fst (snd (UPIFraudAgent_scan (lower ''Seller: scan the QR code to get money''))) = 1"
  (is "?A \<and> ?B \<and> ?C \<and> ?D \<and> ?E")
proof -
  have a: ?A by code_simp
  have b: ?B by code_simp
  have d: ?D by code_simp
  have ne1: "fst (UPIScamDetector_scan (lower ''Collect request: you WON'')) \<noteq> []"
    by (simp only: a) simp
  from ne1 two_tier_scores_and_max [of "lower ''Collect request: you WON''"]
  have "fst (snd (UPIScamDetector_scan (lower ''Collect request: you WON'')))
      = Max (set (map dp_risk (fst (UPIScamDetector_scan (lower ''Collect request: you WON'')))))"
    by blast
  also have "\<dots> = Max (set (map dp_risk [\<lparr>dp_name = ''collect_request_scam'', dp_risk = 1\<rparr>]))"
    by (simp only: a)
  also have "\<dots> = 1" by simp
  finally have c: ?C .
  have ne2: "fst (UPIFraudAgent_scan (lower ''Seller: scan the QR code to get money'')) \<noteq> []"
    by (simp only: d) simp
  from ne2 two_tier_scores_and_max [of "lower ''Seller: scan the QR code to get money''"]
  have "fst (snd (UPIFraudAgent_scan (lower ''Seller: scan the QR code to get money'')))
      = Max (set (map dp_risk (fst (UPIFraudAgent_scan (lower ''Seller: scan the QR code to get money'')))))"
    by blast
  also have "\<dots> = Max (set (map dp_risk [\<lparr>dp_name = ''qr_fraud'', dp_risk = 1\<rparr>,
        \<lparr>dp_name = ''marketplace'', dp_risk = 0.88\<rparr>]))"
    by (simp only: d)
  also have "\<dots> = 1" by simp
  finally have e: ?E .
  from a b c d e show ?thesis by blast
qed

text \<open>
  The formula of the claim, with the cap on the multiplier, is not the score of the code:
  on a message with two keyword hits and one indicator hit of the collect-request pattern
  (base weight 0.9) the code scores 1, the formula gives 0.9.
\<close>

theorem claimed_score_counterexample:
  "two_tier_match (lower ''Collect request: you WON'') (SCAM_PATTERNS ! 0)
   \<and> count_hits (pat_keywords (SCAM_PATTERNS ! 0)) (lower ''Collect request: you WON'') = 2
   \<and> count_hits (pat_indicators (SCAM_PATTERNS ! 0)) (lower ''Collect request: you WON'') = 1
   \<and> tr_patterns_detected (UPIScamDetector_analyze ''Collect request: you WON'' None)
       = [\<lparr>dp_name = ''collect_request_scam'', dp_risk = 1\<rparr>]
   \<and> claimed_score (lower ''Collect request: you WON'') (SCAM_PATTERNS ! 0) = 0.9
   \<and> dp_risk (hd (tr_patterns_detected (UPIScamDetector_analyze ''Collect request: you WON'' None)))
       \<noteq> claimed_score (lower ''Collect request: you WON'') (SCAM_PATTERNS ! 0)"
  by code_simp

section \<open>Properties of the specialists\<close>

lemma fold_max_bounds:
  "0 \<le> m \<Longrightarrow> m \<le> 1 \<Longrightarrow> \<forall>x \<in> set xs. x \<le> 1
     \<Longrightarrow> 0 \<le> fold (\<lambda>r acc. max acc r) xs (m::real) \<and> fold (\<lambda>r acc. max acc r) xs m \<le> 1"
  by (induction xs arbitrary: m) auto

lemma clamped_score_le_one: "clamped_score offset weight s p \<le> 1"
  by (simp add: clamped_score_def)

lemma UPIFraudAgent_scan_bounds:
  "0 \<le> fst (snd (UPIFraudAgent_scan cl)) \<and> fst (snd (UPIFraudAgent_scan cl)) \<le> 1"
proof -
  have "fst (snd (UPIFraudAgent_scan cl))
      = fold (\<lambda>r acc. max acc r)
          (map (clamped_score 0.7 0.15 cl) (filter (two_tier_match cl) UPIFraudAgent_patterns)) 0"
    by (simp add: UPIFraudAgent_scan_def UPIFraudAgent_fold)
  moreover have "\<forall>x \<in> set (map (clamped_score 0.7 0.15 cl)
      (filter (two_tier_match cl) UPIFraudAgent_patterns)). x \<le> 1"
    by (auto simp: clamped_score_le_one)
  ultimately show ?thesis using fold_max_bounds [of 0] by simp
qed

lemma UPIFraudAgent_risk:
  "risk_score (UPIFraudAgent_analyze s)
     = Some (if count_hits UPIFraudAgent_urgency_words (lower s) > 0
             then min (fst (snd (UPIFraudAgent_scan (lower s)))
                       + 0.05 * real (count_hits UPIFraudAgent_urgency_words (lower s))) 1
             else fst (snd (UPIFraudAgent_scan (lower s))))"
  by (simp add: UPIFraudAgent_analyze_def Let_def case_prod_beta)

lemma UPIFraudAgent_unit:
  "\<exists>r. risk_score (UPIFraudAgent_analyze s) = Some r \<and> 0 \<le> r \<and> r \<le> 1"
proof -
  from UPIFraudAgent_scan_bounds [of "lower s"]
  have "0 \<le> fst (snd (UPIFraudAgent_scan (lower s)))"
    and "fst (snd (UPIFraudAgent_scan (lower s))) \<le> 1" by blast+
  then show ?thesis by (simp add: UPIFraudAgent_risk)
qed

lemma PhishingAgent_fold_bounds:
  "\<forall>d \<in> set ds. 0 \<le> ind_risk d \<and> ind_risk d \<le> 1 \<Longrightarrow> 0 \<le> m \<Longrightarrow> m \<le> 1
     \<Longrightarrow> 0 \<le> fold (PhishingAgent_step cl) ds m \<and> fold (PhishingAgent_step cl) ds m \<le> 1"
  by (induction ds arbitrary: m) (auto simp: PhishingAgent_step_def)

lemma PhishingAgent_unit:
  "\<exists>r. risk_score (PhishingAgent_analyze s) = Some r \<and> 0 \<le> r \<and> r \<le> 1"
proof -
  have "\<forall>d \<in> set phishing_indicators. 0 \<le> ind_risk d \<and> ind_risk d \<le> 1"
    by (simp add: phishing_indicators_def)
  from PhishingAgent_fold_bounds [OF this, of 0 "lower s"]
  have "0 \<le> fold (PhishingAgent_step (lower s)) phishing_indicators 0"
    and "fold (PhishingAgent_step (lower s)) phishing_indicators 0 \<le> 1" by simp_all
  then show ?thesis by (simp add: PhishingAgent_analyze_def Let_def)
qed

lemma ImpersonationAgent_unit:
  "\<exists>r. risk_score (ImpersonationAgent_analyze s) = Some r \<and> 0 \<le> r \<and> r \<le> 1"
  by (simp add: ImpersonationAgent_analyze_def Let_def)

lemma DocumentAnalystAgent_unit:
  "\<exists>r. risk_score (DocumentAnalystAgent_analyze s doc_type) = Some r \<and> 0 \<le> r \<and> r \<le> 1"
  by (simp add: DocumentAnalystAgent_analyze_def)

lemma InvestmentFraudAgent_unit:
  "\<exists>r. risk_score (InvestmentFraudAgent_analyze s) = Some r \<and> 0 \<le> r \<and> r \<le> 1"
  by (simp add: InvestmentFraudAgent_analyze_def Let_def le_max_iff_disj)

lemma specialists_empty_text:
  "risk_score (UPIFraudAgent_analyze []) = Some 0"
  "risk_score (PhishingAgent_analyze []) = Some 0"
  "risk_score (ImpersonationAgent_analyze []) = Some 0"
  "risk_score (DocumentAnalystAgent_analyze [] ''loan'') = Some 0"
  "risk_score (DocumentAnalystAgent_analyze [] ''insurance'') = Some 0"
  "risk_score (InvestmentFraudAgent_analyze []) = Some 0"
  by code_simp+

text \<open>
  C5 (as amended). On every text each of the five specialists returns a result without
  raising, its risk score lies in [0, 1], and the empty text has risk 0. A value that is
  not text is not treated as empty content: the call raises.
\<close>

theorem specialists_total_on_text:
  "call_analyze UPIFraudAgent_analyze (PyStr s) = Inr (UPIFraudAgent_analyze s)
   \<and> (\<exists>r. risk_score (UPIFraudAgent_analyze s) = Some r \<and> 0 \<le> r \<and> r \<le> 1)
   \<and> risk_score (UPIFraudAgent_analyze []) = Some 0
   \<and> call_analyze PhishingAgent_analyze (PyStr s) = Inr (PhishingAgent_analyze s)
   \<and> (\<exists>r. risk_score (PhishingAgent_analyze s) = Some r \<and> 0 \<le> r \<and> r \<le> 1)
   \<and> risk_score (PhishingAgent_analyze []) = Some 0
   \<and> call_analyze ImpersonationAgent_analyze (PyStr s) = Inr (ImpersonationAgent_analyze s)
   \<and> (\<exists>r. risk_score (ImpersonationAgent_analyze s) = Some r \<and> 0 \<le> r \<and> r \<le> 1)
   \<and> risk_score (ImpersonationAgent_analyze []) = Some 0
   \<and> call_analyze (\<lambda>c. DocumentAnalystAgent_analyze c doc_type) (PyStr s)
        = Inr (DocumentAnalystAgent_analyze s doc_type)
   \<and> (\<exists>r. risk_score (DocumentAnalystAgent_analyze s doc_type) = Some r \<and> 0 \<le> r \<and> r \<le> 1)
   \<and> risk_score (DocumentAnalystAgent_analyze [] ''loan'') = Some 0
   \<and> risk_score (DocumentAnalystAgent_analyze [] ''insurance'') = Some 0
   \<and> call_analyze InvestmentFraudAgent_analyze (PyStr s) = Inr (InvestmentFraudAgent_analyze s)
   \<and> (\<exists>r. risk_score (InvestmentFraudAgent_analyze s) = Some r \<and> 0 \<le> r \<and> r \<le> 1)
   \<and> risk_score (InvestmentFraudAgent_analyze []) = Some 0"
  using UPIFraudAgent_unit [of s] PhishingAgent_unit [of s] ImpersonationAgent_unit [of s]
    DocumentAnalystAgent_unit [of s doc_type] InvestmentFraudAgent_unit [of s]
    specialists_empty_text
  by (simp add: call_analyze_def)

theorem specialists_total_on_text_witness:
  "call_analyze ImpersonationAgent_analyze (PyStr ''This is the CBI. A warrant is out, pay the fine'')
     = Inr (ImpersonationAgent_analyze ''This is the CBI. A warrant is out, pay the fine'')
   \<and> risk_score (ImpersonationAgent_analyze ''This is the CBI. A warrant is out, pay the fine'')
     = Some 1
   \<and> risk_score (UPIFraudAgent_analyze ''Seller sent a QR'') = Some 0.88
   \<and> risk_score (UPIFraudAgent_analyze []) = Some 0"
  (is "?A \<and> ?B \<and> ?C \<and> ?D")
proof -
  note inst = specialists_total_on_text
      [of "''This is the CBI. A warrant is out, pay the fine''" "''loan''"]
  from inst have a: ?A by blast
  from inst have d: ?D by blast
  have b: ?B by code_simp
  have c: ?C by code_simp
  from a b c d show ?thesis by blast
qed

text \<open>
  A call with \<^verbatim>\<open>None\<close> or with a number raises \<^verbatim>\<open>AttributeError\<close>: it neither returns
  nor yields risk 0.
\<close>

theorem analyze_raises_on_non_text:
  "call_analyze UPIFraudAgent_analyze PyNone = Inl AttributeError
   \<and> call_analyze ImpersonationAgent_analyze PyNone = Inl AttributeError
   \<and> call_analyze ImpersonationAgent_analyze (PyInt 42) = Inl AttributeError"
  by (simp add: call_analyze_def)

text \<open>
  C6 (as amended). Each detector derives its tier from its own risk score alone, by its
  own band table. \<^verbatim>\<open>UPIScamDetector\<close> uses the table 0.9 CRITICAL, 0.7 HIGH, 0.4 MEDIUM,
  above 0 LOW, else SAFE. \<^verbatim>\<open>UPIFraudAgent\<close> uses 0.9 / 0.7 / 0.4 and LOW for every lower
  score; \<^verbatim>\<open>PhishingAgent\<close> uses 0.9 CRITICAL, 0.7 HIGH, else LOW;
  \<^verbatim>\<open>ImpersonationAgent\<close> and \<^verbatim>\<open>InvestmentFraudAgent\<close> use 0.8 CRITICAL, 0.5 HIGH, else
  LOW; \<^verbatim>\<open>DocumentAnalystAgent\<close> returns no tier.
\<close>

theorem detector_band_tables:
  "tr_risk_level (UPIScamDetector_analyze message amount)
     = claimed_band (tr_risk_score (UPIScamDetector_analyze message amount))
   \<and> threat_level (UPIFraudAgent_analyze s)
     = Some (band_90_70_40 (get_risk_score (UPIFraudAgent_analyze s)))
   \<and> threat_level (PhishingAgent_analyze s)
     = Some (band_90_70 (get_risk_score (PhishingAgent_analyze s)))
   \<and> threat_level (ImpersonationAgent_analyze s)
     = Some (band_80_50 (get_risk_score (ImpersonationAgent_analyze s)))
   \<and> threat_level (InvestmentFraudAgent_analyze s)
     = Some (band_80_50 (get_risk_score (InvestmentFraudAgent_analyze s)))
   \<and> threat_level (DocumentAnalystAgent_analyze s doc_type) = None"
proof (intro conjI)
  show "tr_risk_level (UPIScamDetector_analyze message amount)
     = claimed_band (tr_risk_score (UPIScamDetector_analyze message amount))"
    unfolding UPIScamDetector_analyze_def Let_def case_prod_beta claimed_band_def
    by (simp only: tool_result.select_convs)
  show "threat_level (UPIFraudAgent_analyze s)
     = Some (band_90_70_40 (get_risk_score (UPIFraudAgent_analyze s)))"
    unfolding UPIFraudAgent_analyze_def Let_def case_prod_beta band_90_70_40_def
      get_risk_score_def
    by (simp only: finding.select_convs option.case)
  show "threat_level (PhishingAgent_analyze s)
     = Some (band_90_70 (get_risk_score (PhishingAgent_analyze s)))"
    unfolding PhishingAgent_analyze_def Let_def band_90_70_def get_risk_score_def
    by (simp only: finding.select_convs option.case)
  show "threat_level (ImpersonationAgent_analyze s)
     = Some (band_80_50 (get_risk_score (ImpersonationAgent_analyze s)))"
    unfolding ImpersonationAgent_analyze_def Let_def band_80_50_def get_risk_score_def
    by (simp only: finding.select_convs option.case)
  show "threat_level (InvestmentFraudAgent_analyze s)
     = Some (band_80_50 (get_risk_score (InvestmentFraudAgent_analyze s)))"
    unfolding InvestmentFraudAgent_analyze_def Let_def band_80_50_def get_risk_score_def
    by (simp only: finding.select_convs option.case)
  show "threat_level (DocumentAnalystAgent_analyze s doc_type) = None"
    by (simp add: DocumentAnalystAgent_analyze_def)
qed

theorem detector_band_tables_witness:
  "tr_risk_score (UPIScamDetector_analyze ''Refund: enter code'' None) = 0.88
   \<and> tr_risk_level (UPIScamDetector_analyze ''Refund: enter code'' None) = HIGH
   \<and> get_risk_score (ImpersonationAgent_analyze ''police and cbi: custody'') = 0.85
   \<and> threat_level (ImpersonationAgent_analyze ''police and cbi: custody'') = Some ''CRITICAL''"
  (is "?A \<and> ?B \<and> ?C \<and> ?D")
proof -
  have a: ?A by code_simp
  have c: ?C by code_simp
  have "claimed_band 0.88 = HIGH" by (simp add: claimed_band_def)
  with a detector_band_tables [of "''Refund: enter code''" None]
  have b: ?B by (simp only:)
  have "band_80_50 0.85 = ''CRITICAL''" by (simp add: band_80_50_def)
  with c detector_band_tables [of _ _ "''police and cbi: custody''"]
  have d: ?D by (simp only:)
  from a b c d show ?thesis by blast
qed

text \<open>
  The band table of the claim is not the table of the specialists: \<^verbatim>\<open>UPIFraudAgent\<close>
  gives LOW, not SAFE, at risk 0, and \<^verbatim>\<open>ImpersonationAgent\<close> gives CRITICAL, not HIGH, at
  risk 0.85.
\<close>

theorem claimed_band_counterexample:
  "risk_score (UPIFraudAgent_analyze []) = Some 0
   \<and> threat_level (UPIFraudAgent_analyze []) = Some ''LOW''
   \<and> claimed_band_name 0 = ''SAFE''
   \<and> risk_score (ImpersonationAgent_analyze ''police and cbi: custody'') = Some 0.85
   \<and> threat_level (ImpersonationAgent_analyze ''police and cbi: custody'') = Some ''CRITICAL''
   \<and> claimed_band_name 0.85 = ''HIGH''"
  by code_simp

end
